theory Spec2Isabelle
  imports Complex_Main
begin

section \<open>Numbers and vectors\<close>

text \<open>
  The simulator computes with JavaScript numbers (particle arrays are \<^verbatim>\<open>Float32Array\<close>s).
  The embedding reads every number as a \<^typ>\<open>real\<close>: rounding, overflow to infinity and
  NaN are outside the model, and every statement below is a statement about the
  arithmetic the code writes down, carried out exactly.

  \<^verbatim>\<open>THREE.Vector3\<close> (three.js) is a mutable triple; the methods the simulator calls
  on it are given here with the meaning three.js documents for them.
\<close>

record Vector3 =
  cx :: real
  cy :: real
  cz :: real

definition vec3 :: "real \<Rightarrow> real \<Rightarrow> real \<Rightarrow> Vector3" where
  "vec3 a b c = \<lparr>cx = a, cy = b, cz = c\<rparr>"

definition addV :: "Vector3 \<Rightarrow> Vector3 \<Rightarrow> Vector3" where
  "addV a b = \<lparr>cx = cx a + cx b, cy = cy a + cy b, cz = cz a + cz b\<rparr>"

definition subV :: "Vector3 \<Rightarrow> Vector3 \<Rightarrow> Vector3" where
  "subV a b = \<lparr>cx = cx a - cx b, cy = cy a - cy b, cz = cz a - cz b\<rparr>"

definition multiplyScalar :: "Vector3 \<Rightarrow> real \<Rightarrow> Vector3" where
  "multiplyScalar a s = \<lparr>cx = cx a * s, cy = cy a * s, cz = cz a * s\<rparr>"

definition lengthV :: "Vector3 \<Rightarrow> real" where
  "lengthV a = sqrt (cx a * cx a + cy a * cy a + cz a * cz a)"

definition dotV :: "Vector3 \<Rightarrow> Vector3 \<Rightarrow> real" where
  "dotV a b = cx a * cx b + cy a * cy b + cz a * cz b"

definition crossVectors :: "Vector3 \<Rightarrow> Vector3 \<Rightarrow> Vector3" where
  "crossVectors a b =
     \<lparr>cx = cy a * cz b - cz a * cy b,
      cy = cz a * cx b - cx a * cz b,
      cz = cx a * cy b - cy a * cx b\<rparr>"

text \<open>
  \<^verbatim>\<open>normalize()\<close> is \<^verbatim>\<open>divideScalar(length() || 1)\<close>, and
  \<^verbatim>\<open>divideScalar(s)\<close> is \<^verbatim>\<open>multiplyScalar(1 / s)\<close>: the zero vector stays zero.
\<close>

definition normalizeV :: "Vector3 \<Rightarrow> Vector3" where
  "normalizeV a = multiplyScalar a (1 / (if lengthV a = 0 then 1 else lengthV a))"

section \<open>The SPH kernels (ParticleSystem.js)\<close>

definition poly6Kernel :: "real \<Rightarrow> real \<Rightarrow> real" where
  "poly6Kernel r h =
     (if r \<ge> 0 \<and> r \<le> h
      then (let trm = h * h - r * r
            in 315 / (64 * pi * h ^ 9) * trm * trm * trm)
      else 0)"

text \<open>\<^verbatim>\<open>spikyGradient\<close> returns a three-element array; it is read as a vector.\<close>

definition spikyGradient :: "real \<Rightarrow> real \<Rightarrow> real \<Rightarrow> real \<Rightarrow> Vector3" where
  "spikyGradient rx ry rz h =
     (let r = sqrt (rx * rx + ry * ry + rz * rz)
      in if r > 0 \<and> r \<le> h
         then (let coef = - 45 / (pi * h ^ 6);
                   trm = (h - r) * (h - r) / r
               in vec3 (coef * trm * rx) (coef * trm * ry) (coef * trm * rz))
         else vec3 0 0 0)"

definition viscosityLaplacian :: "real \<Rightarrow> real \<Rightarrow> real" where
  "viscosityLaplacian r h =
     (if r \<ge> 0 \<and> r \<le> h then 45 / (pi * h ^ 6) * (h - r) else 0)"

section \<open>Simulation state\<close>

text \<open>
  \<^verbatim>\<open>FluidSimulator.params\<close> (main.js); the fields that only drive rendering
  (particle size, colour) are left out.
\<close>

record Params =
  particleMass :: real
  restDensity :: real
  smoothingRadius :: real
  stiffness :: real
  viscosity :: real
  fluidGravity :: real
  timeStep :: real
  damping :: real
  boundMin :: Vector3
  boundMax :: Vector3
  simulationSpeed :: real

definition defaultParams :: Params where
  "defaultParams =
     \<lparr>particleMass = 1.0, restDensity = 1000.0, smoothingRadius = 0.5,
      stiffness = 2000.0, viscosity = 0.3, fluidGravity = - 9.8, timeStep = 0.003,
      damping = 0.6, boundMin = vec3 (- 8) (- 5) (- 8), boundMax = vec3 8 12 8,
      simulationSpeed = 1.0\<rparr>"

text \<open>
  A \<^verbatim>\<open>RigidBody\<close> object (RigidBody.js) without its mesh. The type tag stays the
  string the code compares; \<^verbatim>\<open>physicalRotation\<close> is a \<^verbatim>\<open>THREE.Euler\<close>, read as
  its three angles.
\<close>

record RigidBody =
  btype :: string
  position :: Vector3
  bsize :: Vector3
  baseSize :: Vector3
  scale :: real
  velocity :: Vector3
  angularVelocity :: Vector3
  physicalRotation :: Vector3
  rotationX :: real
  rotationY :: real
  rotationZ :: real
  density :: real

text \<open>
  The constructor: \<^verbatim>\<open>setScale\<close> replaces \<^verbatim>\<open>size\<close> by the base size times the scale,
  a new body is at rest.
\<close>

definition newRigidBody ::
  "string \<Rightarrow> Vector3 \<Rightarrow> Vector3 \<Rightarrow> real \<Rightarrow> real \<Rightarrow> real \<Rightarrow> real \<Rightarrow> real \<Rightarrow> RigidBody" where
  "newRigidBody ty pos sz scl rX rY rZ dens =
     \<lparr>btype = ty, position = pos, bsize = multiplyScalar sz scl, baseSize = sz,
      scale = scl, velocity = vec3 0 0 0, angularVelocity = vec3 0 0 0,
      physicalRotation = vec3 0 0 0, rotationX = rX, rotationY = rY, rotationZ = rZ,
      density = dens\<rparr>"

text \<open>The size \<^verbatim>\<open>dropRigidBody\<close> (main.js) gives each kind of body.\<close>

definition dropSize :: "string \<Rightarrow> Vector3" where
  "dropSize ty =
     (if ty = ''sphere'' then vec3 0.8 0.8 0.8
      else if ty = ''cube'' then vec3 1.5 1.5 1.5
      else if ty = ''cylinder'' then vec3 0.6 1.5 0.6
      else if ty = ''torus'' then vec3 0.8 0.3 0.3
      else if ty = ''cone'' then vec3 0.8 1.5 0.8
      else if ty = ''boat'' then vec3 2.5 0.6 1.2
      else if ty = ''hollow-sphere'' then vec3 1.0 1.0 1.0
      else if ty = ''hollow-cube'' then vec3 1.5 1.5 1.5
      else if ty = ''hollow-cylinder'' then vec3 0.7 1.5 0.7
      else vec3 1.0 1.0 1.0)"

text \<open>
  The state one animation frame works on: the shared \<^verbatim>\<open>params\<close> object, the gravity
  of \<^verbatim>\<open>objectParams\<close>, the list of rigid bodies, and the arrays of the particle
  system. Each \<^verbatim>\<open>Float32Array\<close> of stride three is read as a list of vectors, so
  \<^verbatim>\<open>positions[i * 3 + 1]\<close> is \<open>cy (positions s ! i)\<close>.
\<close>

record FluidSimulator =
  params :: Params
  objectGravity :: real
  paused :: bool
  rigidBodies :: "RigidBody list"
  numParticles :: nat
  positions :: "Vector3 list"
  velocities :: "Vector3 list"
  densities :: "real list"
  pressures :: "real list"
  forces :: "Vector3 list"

text \<open>The arrays all have \<^verbatim>\<open>numParticles\<close> entries (\<^verbatim>\<open>initParticleArrays\<close>).\<close>

definition wellFormed :: "FluidSimulator \<Rightarrow> bool" where
  "wellFormed s \<longleftrightarrow>
     length (positions s) = numParticles s \<and> length (velocities s) = numParticles s \<and>
     length (densities s) = numParticles s \<and> length (pressures s) = numParticles s \<and>
     length (forces s) = numParticles s"

section \<open>The particle system (ParticleSystem.js)\<close>

subsection \<open>Density pass\<close>

text \<open>
  The inner loop of \<^verbatim>\<open>computeDensity\<close> runs over every index \<open>j\<close>, the particle
  itself included, and adds \<^verbatim>\<open>mass * poly6Kernel(r, h)\<close> when \<^verbatim>\<open>r < h\<close>.
\<close>

definition densityAt :: "FluidSimulator \<Rightarrow> nat \<Rightarrow> real" where
  "densityAt s i =
     (let h = smoothingRadius (params s); mass = particleMass (params s)
      in fold (\<lambda>j density.
                 let r = lengthV (subV (positions s ! i) (positions s ! j))
                 in if r < h then density + mass * poly6Kernel r h else density)
              [0..<numParticles s] 0)"

text \<open>One turn of the outer loop stores the density and the pressure of particle \<open>i\<close>.\<close>

definition densityStep :: "nat \<Rightarrow> FluidSimulator \<Rightarrow> FluidSimulator" where
  "densityStep i s =
     (let density = densityAt s i
      in s\<lparr>densities := (densities s)[i := density],
           pressures := (pressures s)
              [i := stiffness (params s) * (density - restDensity (params s))]\<rparr>)"

definition computeDensity :: "FluidSimulator \<Rightarrow> FluidSimulator" where
  "computeDensity s = fold densityStep [0..<numParticles s] s"

subsection \<open>Force pass\<close>

text \<open>
  Inside \<^verbatim>\<open>if (r < h)\<close> the loop body of \<^verbatim>\<open>computeForces\<close> first subtracts the
  pressure term times the spiky gradient from the accumulator \<open>(fx, fy, fz)\<close>, then
  adds the viscosity term. The two updates are named here; \<open>f\<close> is the accumulator.
\<close>

definition pressureStep :: "FluidSimulator \<Rightarrow> nat \<Rightarrow> nat \<Rightarrow> Vector3 \<Rightarrow> Vector3" where
  "pressureStep s i j f =
     (let h = smoothingRadius (params s); mass = particleMass (params s);
          d = subV (positions s ! i) (positions s ! j);
          density_i = densities s ! i; pressure_i = pressures s ! i;
          density_j = densities s ! j; pressure_j = pressures s ! j;
          grad = spikyGradient (cx d) (cy d) (cz d) h;
          pressureTerm = mass * (pressure_i / (density_i * density_i) +
                                 pressure_j / (density_j * density_j))
      in subV f (multiplyScalar grad pressureTerm))"

definition viscosityStep :: "FluidSimulator \<Rightarrow> nat \<Rightarrow> nat \<Rightarrow> Vector3 \<Rightarrow> Vector3" where
  "viscosityStep s i j f =
     (let h = smoothingRadius (params s); mass = particleMass (params s);
          r = lengthV (subV (positions s ! i) (positions s ! j));
          density_j = densities s ! j;
          lap = viscosityLaplacian r h;
          viscosityTerm = viscosity (params s) * mass / density_j * lap
      in addV f (multiplyScalar (subV (velocities s ! j) (velocities s ! i)) viscosityTerm))"

text \<open>One turn of the inner loop: \<^verbatim>\<open>if (i === j) continue\<close>, then the test \<^verbatim>\<open>r < h\<close>.\<close>

definition neighbourStep :: "FluidSimulator \<Rightarrow> nat \<Rightarrow> nat \<Rightarrow> Vector3 \<Rightarrow> Vector3" where
  "neighbourStep s i j f =
     (if i = j then f
      else (let h = smoothingRadius (params s);
                r = lengthV (subV (positions s ! i) (positions s ! j))
            in if r < h then viscosityStep s i j (pressureStep s i j f) else f))"

definition forceAt :: "FluidSimulator \<Rightarrow> nat \<Rightarrow> Vector3" where
  "forceAt s i =
     (let f = fold (neighbourStep s i) [0..<numParticles s] (vec3 0 0 0)
      in f\<lparr>cy := cy f + fluidGravity (params s) * (densities s ! i)\<rparr>)"

definition forceStep :: "nat \<Rightarrow> FluidSimulator \<Rightarrow> FluidSimulator" where
  "forceStep i s = s\<lparr>forces := (forces s)[i := forceAt s i]\<rparr>"

text \<open>\<^verbatim>\<open>this.forces.fill(0)\<close>, then the loop over the particles.\<close>

definition computeForces :: "FluidSimulator \<Rightarrow> FluidSimulator" where
  "computeForces s =
     fold forceStep [0..<numParticles s]
          (s\<lparr>forces := replicate (length (forces s)) (vec3 0 0 0)\<rparr>)"

subsection \<open>Boundary pass\<close>

text \<open>
  \<^verbatim>\<open>handleBoundaryCollision(i)\<close>: six tests in the source's order (bottom, top, the
  two x walls, the two z walls), each on the position and velocity the earlier tests
  left.
\<close>

definition boundaryResponse :: "Params \<Rightarrow> Vector3 \<times> Vector3 \<Rightarrow> Vector3 \<times> Vector3" where
  "boundaryResponse prm pv =
     (let dmp = damping prm; bMin = boundMin prm; bMax = boundMax prm;
          (p, v) = pv;
          (p, v) = (if cy p < cy bMin
                    then (p\<lparr>cy := cy bMin\<rparr>,
                          v\<lparr>cy := \<bar>cy v\<bar> * dmp, cx := cx v * 0.95, cz := cz v * 0.95\<rparr>)
                    else (p, v));
          (p, v) = (if cy p > cy bMax
                    then (p\<lparr>cy := cy bMax\<rparr>, v\<lparr>cy := - \<bar>cy v\<bar> * dmp\<rparr>)
                    else (p, v));
          (p, v) = (if cx p < cx bMin
                    then (p\<lparr>cx := cx bMin\<rparr>, v\<lparr>cx := \<bar>cx v\<bar> * dmp\<rparr>)
                    else (p, v));
          (p, v) = (if cx p > cx bMax
                    then (p\<lparr>cx := cx bMax\<rparr>, v\<lparr>cx := - \<bar>cx v\<bar> * dmp\<rparr>)
                    else (p, v));
          (p, v) = (if cz p < cz bMin
                    then (p\<lparr>cz := cz bMin\<rparr>, v\<lparr>cz := \<bar>cz v\<bar> * dmp\<rparr>)
                    else (p, v));
          (p, v) = (if cz p > cz bMax
                    then (p\<lparr>cz := cz bMax\<rparr>, v\<lparr>cz := - \<bar>cz v\<bar> * dmp\<rparr>)
                    else (p, v))
      in (p, v))"

definition handleBoundaryCollision :: "nat \<Rightarrow> FluidSimulator \<Rightarrow> FluidSimulator" where
  "handleBoundaryCollision i s =
     (let (p, v) = boundaryResponse (params s) (positions s ! i, velocities s ! i)
      in s\<lparr>positions := (positions s)[i := p], velocities := (velocities s)[i := v]\<rparr>)"

subsection \<open>Fluid-to-rigid coupling pass\<close>

text \<open>
  One turn of the loop \<^verbatim>\<open>for (const body of rigidBodies)\<close> in
  \<^verbatim>\<open>handleRigidBodyCollisions(i, rigidBodies)\<close>. The offsets \<open>dx, dy, dz\<close> are taken
  from \<open>p\<close>, the position the method read before the loop; velocities are read from
  the arrays as they stand. The chain of tests on the type tag has two branches and no
  final \<^verbatim>\<open>else\<close>; the bodies of the two branches are \<open>sphereTest\<close> and \<open>cubeTest\<close>.
\<close>

definition sphereTest :: "nat \<Rightarrow> real \<Rightarrow> real \<Rightarrow> real \<Rightarrow> RigidBody \<Rightarrow> FluidSimulator \<Rightarrow> FluidSimulator" where
  "sphereTest i dx dy dz body s =
     (let dist = sqrt (dx * dx + dy * dy + dz * dz);
          radius = cx (bsize body)
      in if dist < radius \<and> dist > 0
         then (let nx = dx / dist; ny = dy / dist; nz = dz / dist;
                   s1 = s\<lparr>positions := (positions s)
                          [i := vec3 (cx (position body) + nx * radius)
                                     (cy (position body) + ny * radius)
                                     (cz (position body) + nz * radius)]\<rparr>;
                   v = velocities s1 ! i;
                   dot = cx v * nx + cy v * ny + cz v * nz
               in if dot < 0
                  then (let v1 = vec3 (cx v - 2 * dot * nx) (cy v - 2 * dot * ny)
                                      (cz v - 2 * dot * nz);
                            v2 = multiplyScalar v1 (damping (params s1))
                        in s1\<lparr>velocities := (velocities s1)[i := v2]\<rparr>)
                  else s1)
         else s)"

definition cubeTest :: "nat \<Rightarrow> real \<Rightarrow> real \<Rightarrow> real \<Rightarrow> RigidBody \<Rightarrow> FluidSimulator \<Rightarrow> FluidSimulator" where
  "cubeTest i dx dy dz body s =
     (let halfX = cx (bsize body) * 0.5;
          halfY = cy (bsize body) * 0.5;
          halfZ = cz (bsize body) * 0.5
      in if \<bar>dx\<bar> < halfX \<and> \<bar>dy\<bar> < halfY \<and> \<bar>dz\<bar> < halfZ
         then (let penX = halfX - \<bar>dx\<bar>;
                   penY = halfY - \<bar>dy\<bar>;
                   penZ = halfZ - \<bar>dz\<bar>;
                   minPen = min (min penX penY) penZ;
                   pos = positions s ! i; v = velocities s ! i;
                   dmp = damping (params s)
               in if minPen = penX
                  then (let sign = (if dx > 0 then 1 else - 1)
                        in s\<lparr>positions := (positions s)
                               [i := pos\<lparr>cx := cx (position body) + sign * halfX\<rparr>],
                             velocities := (velocities s)
                               [i := v\<lparr>cx := \<bar>cx v\<bar> * sign * dmp\<rparr>]\<rparr>)
                  else if minPen = penY
                  then (let sign = (if dy > 0 then 1 else - 1)
                        in s\<lparr>positions := (positions s)
                               [i := pos\<lparr>cy := cy (position body) + sign * halfY\<rparr>],
                             velocities := (velocities s)
                               [i := v\<lparr>cy := \<bar>cy v\<bar> * sign * dmp\<rparr>]\<rparr>)
                  else (let sign = (if dz > 0 then 1 else - 1)
                        in s\<lparr>positions := (positions s)
                               [i := pos\<lparr>cz := cz (position body) + sign * halfZ\<rparr>],
                             velocities := (velocities s)
                               [i := v\<lparr>cz := \<bar>cz v\<bar> * sign * dmp\<rparr>]\<rparr>))
         else s)"

definition particleBodyStep :: "nat \<Rightarrow> Vector3 \<Rightarrow> RigidBody \<Rightarrow> FluidSimulator \<Rightarrow> FluidSimulator" where
  "particleBodyStep i p body s =
     (let dx = cx p - cx (position body);
          dy = cy p - cy (position body);
          dz = cz p - cz (position body)
      in if btype body = ''sphere'' \<or> btype body = ''cylinder'' \<or> btype body = ''torus''
         then sphereTest i dx dy dz body s
         else if btype body = ''cube''
         then cubeTest i dx dy dz body s
         else s)"

definition handleRigidBodyCollisions :: "nat \<Rightarrow> RigidBody list \<Rightarrow> FluidSimulator \<Rightarrow> FluidSimulator" where
  "handleRigidBodyCollisions i bodies s =
     (let p = positions s ! i in fold (particleBodyStep i p) bodies s)"

subsection \<open>Integration pass\<close>

text \<open>
  One turn of the loop of \<^verbatim>\<open>integrate(dt, rigidBodies)\<close>. A particle whose density is
  below \<^verbatim>\<open>1.0\<close> is passed over by \<^verbatim>\<open>continue\<close>; for the others the boundary pass and
  the coupling pass run inside the same turn. The guard \<^verbatim>\<open>if (rigidBodies)\<close> holds for
  every array, which is what \<^verbatim>\<open>animate\<close> passes.
\<close>

definition integrateParticle :: "real \<Rightarrow> RigidBody list \<Rightarrow> nat \<Rightarrow> FluidSimulator \<Rightarrow> FluidSimulator" where
  "integrateParticle dt bodies i s =
     (let dens = densities s ! i
      in if dens < 1.0 then s
         else (let f = forces s ! i;
                   ax = cx f / dens; ay = cy f / dens; az = cz f / dens;
                   v = velocities s ! i;
                   v' = vec3 (cx v + ax * dt) (cy v + ay * dt) (cz v + az * dt);
                   s1 = s\<lparr>velocities := (velocities s)[i := v']\<rparr>;
                   p = positions s1 ! i; w = velocities s1 ! i;
                   p' = vec3 (cx p + cx w * dt) (cy p + cy w * dt) (cz p + cz w * dt);
                   s2 = s1\<lparr>positions := (positions s1)[i := p']\<rparr>;
                   s3 = handleBoundaryCollision i s2
               in handleRigidBodyCollisions i bodies s3))"

definition integrate :: "real \<Rightarrow> RigidBody list \<Rightarrow> FluidSimulator \<Rightarrow> FluidSimulator" where
  "integrate dt bodies s = fold (integrateParticle dt bodies) [0..<numParticles s] s"

text \<open>\<^verbatim>\<open>ParticleSystem.update\<close>, without the colour and geometry updates.\<close>

definition updateParticleSystem :: "FluidSimulator \<Rightarrow> FluidSimulator" where
  "updateParticleSystem s =
     integrate (timeStep (params s)) (rigidBodies s) (computeForces (computeDensity s))"

section \<open>Rigid bodies (RigidBody.js)\<close>

subsection \<open>Body against body\<close>

text \<open>
  The effective radius of \<^verbatim>\<open>checkObjectCollisions\<close>; the source writes the same chain
  of tests once for \<^verbatim>\<open>this\<close> and once for \<^verbatim>\<open>other\<close>.
\<close>

definition collisionRadius :: "RigidBody \<Rightarrow> real" where
  "collisionRadius b =
     (if btype b = ''sphere'' \<or> btype b = ''torus'' \<or> btype b = ''hollow-sphere''
      then cx (bsize b)
      else if btype b = ''cylinder'' \<or> btype b = ''cone'' \<or> btype b = ''hollow-cylinder''
              \<or> btype b = ''boat''
      then cx (bsize b) * 1.2
      else lengthV (bsize b) * 0.6)"

text \<open>The block guarded by \<^verbatim>\<open>velocityAlongNormal < 0 || overlap > 0.1\<close>.\<close>

definition collisionResponse ::
  "Vector3 \<Rightarrow> Vector3 \<Rightarrow> real \<Rightarrow> RigidBody \<Rightarrow> RigidBody \<Rightarrow> RigidBody \<times> RigidBody" where
  "collisionResponse normal relativeVel velocityAlongNormal this0 other0 =
     (let restitution = 0.4;
          j = - (1 + restitution) * velocityAlongNormal;
          impulse = multiplyScalar normal (j * 0.5);
          this = this0\<lparr>velocity := addV (velocity this0) impulse\<rparr>;
          other = other0\<lparr>velocity := subV (velocity other0) impulse\<rparr>;
          tangent = subV relativeVel (multiplyScalar normal velocityAlongNormal);
          frictionMagnitude = lengthV tangent * 0.3;
          (this, other) =
            (if frictionMagnitude > 0.001
             then (let friction = multiplyScalar (normalizeV tangent) (- frictionMagnitude * 0.5)
                   in (this\<lparr>velocity := addV (velocity this) friction\<rparr>,
                       other\<lparr>velocity := subV (velocity other) friction\<rparr>))
             else (this, other));
          this = this\<lparr>angularVelocity := multiplyScalar (angularVelocity this) 0.7\<rparr>;
          other = other\<lparr>angularVelocity := multiplyScalar (angularVelocity other) 0.7\<rparr>;
          torqueAxis = crossVectors normal relativeVel;
          this = this\<lparr>angularVelocity :=
                   addV (angularVelocity this) (multiplyScalar torqueAxis 0.01)\<rparr>
      in (this, other))"

text \<open>
  The block guarded by \<^verbatim>\<open>distance < minDistance\<close>: the two bodies are moved apart
  along the normal, then the response above is applied under its guard.
\<close>

definition resolveOverlap ::
  "Vector3 \<Rightarrow> real \<Rightarrow> real \<Rightarrow> RigidBody \<Rightarrow> RigidBody \<Rightarrow> RigidBody \<times> RigidBody" where
  "resolveOverlap diff distance minDistance this0 other0 =
     (let normal = normalizeV diff;
          overlap = minDistance - distance;
          totalVel = lengthV (velocity this0) + lengthV (velocity other0);
          thisRatio = (if totalVel > 0 then lengthV (velocity this0) / totalVel else 0.5);
          otherRatio = 1 - thisRatio;
          this = this0\<lparr>position := addV (position this0)
                    (multiplyScalar normal (overlap * thisRatio))\<rparr>;
          other = other0\<lparr>position := addV (position other0)
                    (multiplyScalar normal (- overlap * otherRatio))\<rparr>;
          relativeVel = subV (velocity this) (velocity other);
          velocityAlongNormal = dotV relativeVel normal
      in if velocityAlongNormal < 0 \<or> overlap > 0.1
         then collisionResponse normal relativeVel velocityAlongNormal this other
         else (this, other))"

text \<open>
  The callback of \<^verbatim>\<open>allBodies.forEach\<close>, for the body at index \<open>i\<close> against the body
  at index \<open>j\<close>. Bodies are objects in one array, so \<^verbatim>\<open>other === this\<close> is equality of
  the indices, and both objects are written back into the list.
\<close>

definition collidePair :: "nat \<Rightarrow> nat \<Rightarrow> RigidBody list \<Rightarrow> RigidBody list" where
  "collidePair i j bs =
     (if j = i then bs
      else (let this0 = bs ! i; other0 = bs ! j;
                diff = subV (position this0) (position other0);
                distance = lengthV diff
            in if distance < 0.001 then bs
               else (let thisRadius = collisionRadius this0;
                         otherRadius = collisionRadius other0;
                         minDistance = thisRadius + otherRadius
                     in if distance < minDistance
                        then (let (this, other) =
                                    resolveOverlap diff distance minDistance this0 other0
                              in bs[i := this, j := other])
                        else bs)))"

definition checkObjectCollisions :: "nat \<Rightarrow> RigidBody list \<Rightarrow> RigidBody list" where
  "checkObjectCollisions i bs = fold (collidePair i) [0..<length bs] bs"

text \<open>
  The extra passes of \<^verbatim>\<open>animate\<close> (main.js): three times, every body checks itself
  against all bodies.
\<close>

definition collisionPass :: "RigidBody list \<Rightarrow> RigidBody list" where
  "collisionPass bs = fold checkObjectCollisions [0..<length bs] bs"

definition collisionPasses :: "RigidBody list \<Rightarrow> RigidBody list" where
  "collisionPasses bs = collisionPass (collisionPass (collisionPass bs))"

subsection \<open>Per-step dynamics\<close>

text \<open>The first statements of \<^verbatim>\<open>update\<close>: buoyant gravity, drag, position.\<close>

definition applyEffectiveGravity :: "real \<Rightarrow> real \<Rightarrow> real \<Rightarrow> RigidBody \<Rightarrow> RigidBody" where
  "applyEffectiveGravity dt gravity fluidDensity b =
     (let buoyancyFactor = fluidDensity / density b;
          effectiveGravity = gravity * (1 - buoyancyFactor * 0.8)
      in b\<lparr>velocity := (velocity b)\<lparr>cy := cy (velocity b) + effectiveGravity * dt\<rparr>\<rparr>)"

definition applyDrag :: "real \<Rightarrow> real \<Rightarrow> RigidBody \<Rightarrow> RigidBody" where
  "applyDrag dt fluidDensity b =
     (let dragFactor = min (fluidDensity / 1000) 2
      in b\<lparr>velocity := multiplyScalar (velocity b) (1 - (0.01 * dragFactor * dt * 60))\<rparr>)"

definition movePosition :: "real \<Rightarrow> RigidBody \<Rightarrow> RigidBody" where
  "movePosition dt b = b\<lparr>position := addV (position b) (multiplyScalar (velocity b) dt)\<rparr>"

text \<open>Angular damping and the physics-driven rotation.\<close>

definition spin :: "real \<Rightarrow> RigidBody \<Rightarrow> RigidBody" where
  "spin dt b0 =
     (let b = b0\<lparr>angularVelocity := multiplyScalar (angularVelocity b0) 0.98\<rparr>
      in b\<lparr>physicalRotation :=
             vec3 (cx (physicalRotation b) + cx (angularVelocity b) * dt)
                  (cy (physicalRotation b) + cy (angularVelocity b) * dt)
                  (cz (physicalRotation b) + cz (angularVelocity b) * dt)\<rparr>)"

subsection \<open>Boundary handling of a body\<close>

text \<open>
  The three tests on the type tag that \<^verbatim>\<open>update\<close> uses: the first two pick the
  radius and the floor rule, the third (seven tags) picks the rule for the ceiling and
  the side walls.
\<close>

definition roundFamily :: "string \<Rightarrow> bool" where
  "roundFamily t \<longleftrightarrow> t = ''sphere'' \<or> t = ''torus'' \<or> t = ''hollow-sphere''"

definition cylinderFamily :: "string \<Rightarrow> bool" where
  "cylinderFamily t \<longleftrightarrow>
     t = ''cylinder'' \<or> t = ''cone'' \<or> t = ''hollow-cylinder'' \<or> t = ''boat''"

definition radialForWalls :: "string \<Rightarrow> bool" where
  "radialForWalls t \<longleftrightarrow>
     t = ''sphere'' \<or> t = ''cylinder'' \<or> t = ''torus'' \<or> t = ''cone'' \<or>
     t = ''hollow-sphere'' \<or> t = ''hollow-cylinder'' \<or> t = ''boat''"

text \<open>\<^verbatim>\<open>Math.round\<close> rounds to the nearest integer, halves upwards.\<close>

definition jsRound :: "real \<Rightarrow> real" where
  "jsRound a = of_int \<lfloor>a + 1 / 2\<rfloor>"

definition totalRotation :: "RigidBody \<Rightarrow> Vector3" where
  "totalRotation b =
     vec3 (rotationX b * pi / 180 + cx (physicalRotation b))
          (rotationY b * pi / 180 + cy (physicalRotation b))
          (rotationZ b * pi / 180 + cz (physicalRotation b))"

definition corners :: "Vector3 \<Rightarrow> Vector3 list" where
  "corners halfSize =
     [vec3 (- cx halfSize) (- cy halfSize) (- cz halfSize),
      vec3 (cx halfSize) (- cy halfSize) (- cz halfSize),
      vec3 (- cx halfSize) (cy halfSize) (- cz halfSize),
      vec3 (cx halfSize) (cy halfSize) (- cz halfSize),
      vec3 (- cx halfSize) (- cy halfSize) (cz halfSize),
      vec3 (cx halfSize) (- cy halfSize) (cz halfSize),
      vec3 (- cx halfSize) (cy halfSize) (cz halfSize),
      vec3 (cx halfSize) (cy halfSize) (cz halfSize)]"

text \<open>
  \<^verbatim>\<open>corner.applyEuler(totalRotation)\<close> belongs to three.js. It enters as the parameter
  \<open>applyEuler\<close> (corner first, angles second); no result below depends on what it
  computes. The running minimum and maximum start at \<^verbatim>\<open>Infinity\<close> and
  \<^verbatim>\<open>-Infinity\<close>, which the first of the eight corners replaces.
\<close>

definition rotatedCorners :: "(Vector3 \<Rightarrow> Vector3 \<Rightarrow> Vector3) \<Rightarrow> RigidBody \<Rightarrow> Vector3 list" where
  "rotatedCorners applyEuler b =
     map (\<lambda>corner. applyEuler corner (totalRotation b))
         (corners (multiplyScalar (bsize b) 0.5))"

definition minOver :: "real list \<Rightarrow> real" where
  "minOver as = fold (\<lambda>a m. min m a) (tl as) (hd as)"

definition maxOver :: "real list \<Rightarrow> real" where
  "maxOver as = fold (\<lambda>a m. max m a) (tl as) (hd as)"

definition effectiveRadius :: "(Vector3 \<Rightarrow> Vector3 \<Rightarrow> Vector3) \<Rightarrow> RigidBody \<Rightarrow> Vector3" where
  "effectiveRadius applyEuler b =
     (let cs = rotatedCorners applyEuler b;
          minY = minOver (map cy cs); maxY = maxOver (map cy cs);
          minX = minOver (map cx cs); maxX = maxOver (map cx cs);
          minZ = minOver (map cz cs); maxZ = maxOver (map cz cs)
      in \<lparr>cx = max \<bar>minX\<bar> \<bar>maxX\<bar>, cy = max \<bar>minY\<bar> \<bar>maxY\<bar>, cz = max \<bar>minZ\<bar> \<bar>maxZ\<bar>\<rparr>)"

text \<open>What the three floor branches share: the torque of the impact, the bounce.\<close>

definition floorImpact :: "real \<Rightarrow> real \<Rightarrow> RigidBody \<Rightarrow> RigidBody" where
  "floorImpact torque angularFriction b0 =
     (let impactForce = \<bar>cy (velocity b0)\<bar>;
          b = (if impactForce > 0.1
               then b0\<lparr>angularVelocity := (angularVelocity b0)
                        \<lparr>cx := cx (angularVelocity b0) + cz (velocity b0) * torque,
                         cz := cz (angularVelocity b0) - cx (velocity b0) * torque\<rparr>\<rparr>
               else b0);
          b = b\<lparr>velocity := (velocity b)
                  \<lparr>cy := - cy (velocity b) * 0.2,
                   cx := cx (velocity b) * 0.8,
                   cz := cz (velocity b) * 0.8\<rparr>\<rparr>
      in b\<lparr>angularVelocity := multiplyScalar (angularVelocity b) angularFriction\<rparr>)"

definition isMovingSlowly :: "RigidBody \<Rightarrow> bool" where
  "isMovingSlowly b \<longleftrightarrow>
     lengthV (velocity b) < 0.5 \<and> \<bar>lengthV (angularVelocity b)\<bar> < 1.0"

definition snapTarget :: "real \<Rightarrow> real" where
  "snapTarget totalRot = (let snapAngle = pi / 2 in jsRound (totalRot / snapAngle) * snapAngle)"

definition bottomRound :: "Vector3 \<Rightarrow> RigidBody \<Rightarrow> RigidBody" where
  "bottomRound bMin b =
     (let radius = cx (bsize b)
      in if cy (position b) - radius < cy bMin
         then floorImpact 0.3 0.85 (b\<lparr>position := (position b)\<lparr>cy := cy bMin + radius\<rparr>\<rparr>)
         else b)"

definition bottomCylinder :: "Vector3 \<Rightarrow> RigidBody \<Rightarrow> RigidBody" where
  "bottomCylinder bMin b0 =
     (let radius = cx (bsize b0)
      in if cy (position b0) - radius < cy bMin
         then (let b = floorImpact 0.3 0.85
                         (b0\<lparr>position := (position b0)\<lparr>cy := cy bMin + radius\<rparr>\<rparr>)
               in if isMovingSlowly b
                  then (let totalRotX = cx (totalRotation b);
                            totalRotZ = cz (totalRotation b);
                            alignSpeed = 0.1;
                            b = b\<lparr>physicalRotation := (physicalRotation b)
                                    \<lparr>cx := cx (physicalRotation b)
                                            + (snapTarget totalRotX - totalRotX) * alignSpeed,
                                     cz := cz (physicalRotation b)
                                            + (snapTarget totalRotZ - totalRotZ) * alignSpeed\<rparr>\<rparr>
                        in b\<lparr>angularVelocity := multiplyScalar (angularVelocity b) 0.5\<rparr>)
                  else b)
         else b0)"

text \<open>
  The floor branch for boxes. \<open>eff\<close> is the effective radius computed before any wall
  is tested; after the alignment the lowest corner is computed again.
\<close>

definition bottomBox ::
  "(Vector3 \<Rightarrow> Vector3 \<Rightarrow> Vector3) \<Rightarrow> Vector3 \<Rightarrow> Vector3 \<Rightarrow> RigidBody \<Rightarrow> RigidBody" where
  "bottomBox applyEuler bMin eff b0 =
     (if cy (position b0) - cy eff < cy bMin
      then (let b = floorImpact 0.5 0.7
                      (b0\<lparr>position := (position b0)\<lparr>cy := cy bMin + cy eff\<rparr>\<rparr>)
            in if isMovingSlowly b
               then (let totalRotX = cx (totalRotation b);
                         totalRotY = cy (totalRotation b);
                         totalRotZ = cz (totalRotation b);
                         alignSpeed = 0.1;
                         b = b\<lparr>physicalRotation :=
                                 vec3 (cx (physicalRotation b)
                                         + (snapTarget totalRotX - totalRotX) * alignSpeed)
                                      (cy (physicalRotation b)
                                         + (snapTarget totalRotY - totalRotY) * alignSpeed)
                                      (cz (physicalRotation b)
                                         + (snapTarget totalRotZ - totalRotZ) * alignSpeed)\<rparr>;
                         b = b\<lparr>angularVelocity := multiplyScalar (angularVelocity b) 0.5\<rparr>;
                         newMinY = minOver (map cy (rotatedCorners applyEuler b));
                         newEffectiveRadiusY = \<bar>newMinY\<bar>
                     in if cy (position b) - newEffectiveRadiusY < cy bMin
                        then b\<lparr>position := (position b)\<lparr>cy := cy bMin + newEffectiveRadiusY\<rparr>\<rparr>
                        else b)
               else b)
      else b0)"

definition bottomWall ::
  "(Vector3 \<Rightarrow> Vector3 \<Rightarrow> Vector3) \<Rightarrow> Vector3 \<Rightarrow> Vector3 \<Rightarrow> RigidBody \<Rightarrow> RigidBody" where
  "bottomWall applyEuler bMin eff b =
     (if roundFamily (btype b) then bottomRound bMin b
      else if cylinderFamily (btype b) then bottomCylinder bMin b
      else bottomBox applyEuler bMin eff b)"

text \<open>
  Ceiling and side walls: the radial tags use \<^verbatim>\<open>radius\<close>, the others the effective
  radius on that axis; the torque factor is 0.2 for the former and 0.3 for the latter.
\<close>

definition topWall :: "Vector3 \<Rightarrow> Vector3 \<Rightarrow> RigidBody \<Rightarrow> RigidBody" where
  "topWall bMax eff b =
     (let r = (if radialForWalls (btype b) then cx (bsize b) else cy eff)
      in if cy (position b) + r > cy bMax
         then b\<lparr>position := (position b)\<lparr>cy := cy bMax - r\<rparr>,
                velocity := (velocity b)\<lparr>cy := - cy (velocity b) * 0.2\<rparr>\<rparr>
         else b)"

definition sidesX :: "Vector3 \<Rightarrow> Vector3 \<Rightarrow> Vector3 \<Rightarrow> RigidBody \<Rightarrow> RigidBody" where
  "sidesX bMin bMax eff b0 =
     (let r = (if radialForWalls (btype b0) then cx (bsize b0) else cx eff);
          k = (if radialForWalls (btype b0) then 0.2 else 0.3);
          b = (if cx (position b0) - r < cx bMin
               then b0\<lparr>position := (position b0)\<lparr>cx := cx bMin + r\<rparr>,
                       angularVelocity := (angularVelocity b0)
                          \<lparr>cz := cz (angularVelocity b0) + cy (velocity b0) * k\<rparr>,
                       velocity := (velocity b0)\<lparr>cx := - cx (velocity b0) * 0.3\<rparr>\<rparr>
               else b0)
      in if cx (position b) + r > cx bMax
         then b\<lparr>position := (position b)\<lparr>cx := cx bMax - r\<rparr>,
                angularVelocity := (angularVelocity b)
                   \<lparr>cz := cz (angularVelocity b) - cy (velocity b) * k\<rparr>,
                velocity := (velocity b)\<lparr>cx := - cx (velocity b) * 0.3\<rparr>\<rparr>
         else b)"

definition sidesZ :: "Vector3 \<Rightarrow> Vector3 \<Rightarrow> Vector3 \<Rightarrow> RigidBody \<Rightarrow> RigidBody" where
  "sidesZ bMin bMax eff b0 =
     (let r = (if radialForWalls (btype b0) then cx (bsize b0) else cz eff);
          k = (if radialForWalls (btype b0) then 0.2 else 0.3);
          b = (if cz (position b0) - r < cz bMin
               then b0\<lparr>position := (position b0)\<lparr>cz := cz bMin + r\<rparr>,
                       angularVelocity := (angularVelocity b0)
                          \<lparr>cx := cx (angularVelocity b0) - cy (velocity b0) * k\<rparr>,
                       velocity := (velocity b0)\<lparr>cz := - cz (velocity b0) * 0.3\<rparr>\<rparr>
               else b0)
      in if cz (position b) + r > cz bMax
         then b\<lparr>position := (position b)\<lparr>cz := cz bMax - r\<rparr>,
                angularVelocity := (angularVelocity b)
                   \<lparr>cx := cx (angularVelocity b) + cy (velocity b) * k\<rparr>,
                velocity := (velocity b)\<lparr>cz := - cz (velocity b) * 0.3\<rparr>\<rparr>
         else b)"

text \<open>
  The boundary part of \<^verbatim>\<open>update\<close>, from \<^verbatim>\<open>// Boundary collisions\<close> to the end:
  floor, ceiling, x walls, z walls, in that order.
\<close>

definition boundaryCollisions ::
  "(Vector3 \<Rightarrow> Vector3 \<Rightarrow> Vector3) \<Rightarrow> Vector3 \<Rightarrow> Vector3 \<Rightarrow> RigidBody \<Rightarrow> RigidBody" where
  "boundaryCollisions applyEuler bMin bMax b =
     (let eff = effectiveRadius applyEuler b
      in sidesZ bMin bMax eff
           (sidesX bMin bMax eff
              (topWall bMax eff
                 (bottomWall applyEuler bMin eff b))))"

subsection \<open>The per-step update and the frame\<close>

text \<open>
  \<^verbatim>\<open>update(dt, gravity, boundMin, boundMax, damping, fluidDensity, allBodies)\<close> for the
  body at index \<open>i\<close> of the list \<^verbatim>\<open>animate\<close> passes as \<^verbatim>\<open>allBodies\<close>. The parameter
  \<^verbatim>\<open>damping\<close> is not read by the method.
\<close>

definition beforeBoundary :: "nat \<Rightarrow> real \<Rightarrow> real \<Rightarrow> real \<Rightarrow> RigidBody list \<Rightarrow> RigidBody list" where
  "beforeBoundary i dt gravity fluidDensity bs0 =
     (let bs = bs0[i := movePosition dt
                          (applyDrag dt fluidDensity
                             (applyEffectiveGravity dt gravity fluidDensity (bs0 ! i)))];
          bs = checkObjectCollisions i bs
      in bs[i := spin dt (bs ! i)])"

definition update ::
  "(Vector3 \<Rightarrow> Vector3 \<Rightarrow> Vector3) \<Rightarrow> nat \<Rightarrow> real \<Rightarrow> real \<Rightarrow> Vector3 \<Rightarrow> Vector3 \<Rightarrow> real \<Rightarrow> real
     \<Rightarrow> RigidBody list \<Rightarrow> RigidBody list" where
  "update applyEuler i dt gravity bMin bMax dmp fluidDensity bs0 =
     (let bs = beforeBoundary i dt gravity fluidDensity bs0
      in bs[i := boundaryCollisions applyEuler bMin bMax (bs ! i)])"

text \<open>
  The simulation part of \<^verbatim>\<open>animate\<close> (main.js): every body is updated, the three
  extra collision passes run, then the particle system steps with the time step scaled
  by the speed multiplier. No statement of the model raises, so the \<^verbatim>\<open>catch\<close> branch
  has no counterpart.
\<close>

definition updateRigidBodies :: "(Vector3 \<Rightarrow> Vector3 \<Rightarrow> Vector3) \<Rightarrow> FluidSimulator \<Rightarrow> RigidBody list" where
  "updateRigidBodies applyEuler s =
     fold (\<lambda>i bs. update applyEuler i
                     (timeStep (params s) * simulationSpeed (params s))
                     (objectGravity s) (boundMin (params s)) (boundMax (params s))
                     (damping (params s)) (restDensity (params s)) bs)
          [0..<length (rigidBodies s)] (rigidBodies s)"

definition animate :: "(Vector3 \<Rightarrow> Vector3 \<Rightarrow> Vector3) \<Rightarrow> FluidSimulator \<Rightarrow> FluidSimulator" where
  "animate applyEuler s =
     (if paused s then s
      else (let speedMultiplier = simulationSpeed (params s);
                s1 = s\<lparr>rigidBodies := collisionPasses (updateRigidBodies applyEuler s)\<rparr>;
                originalTimeStep = timeStep (params s1);
                s2 = s1\<lparr>params := (params s1)\<lparr>timeStep := timeStep (params s1) * speedMultiplier\<rparr>\<rparr>;
                s3 = updateParticleSystem s2
            in s3\<lparr>params := (params s3)\<lparr>timeStep := originalTimeStep\<rparr>\<rparr>))"

section \<open>Notions used in the statements\<close>

text \<open>A point lies in the domain box; the box has its corners in order.\<close>

definition withinBounds :: "Vector3 \<Rightarrow> Vector3 \<Rightarrow> Vector3 \<Rightarrow> bool" where
  "withinBounds bMin bMax p \<longleftrightarrow>
     cx bMin \<le> cx p \<and> cx p \<le> cx bMax \<and>
     cy bMin \<le> cy p \<and> cy p \<le> cy bMax \<and>
     cz bMin \<le> cz p \<and> cz p \<le> cz bMax"

definition orderedBox :: "Vector3 \<Rightarrow> Vector3 \<Rightarrow> bool" where
  "orderedBox bMin bMax \<longleftrightarrow>
     cx bMin \<le> cx bMax \<and> cy bMin \<le> cy bMax \<and> cz bMin \<le> cz bMax"

text \<open>
  The radius the boundary handling of a body uses on each axis, and the condition that
  the body is no wider than the box on any axis.
\<close>

definition wallRadius :: "(Vector3 \<Rightarrow> Vector3 \<Rightarrow> Vector3) \<Rightarrow> RigidBody \<Rightarrow> Vector3" where
  "wallRadius applyEuler b =
     (if radialForWalls (btype b) then vec3 (cx (bsize b)) (cx (bsize b)) (cx (bsize b))
      else effectiveRadius applyEuler b)"

definition fitsDomain :: "(Vector3 \<Rightarrow> Vector3 \<Rightarrow> Vector3) \<Rightarrow> Vector3 \<Rightarrow> Vector3 \<Rightarrow> RigidBody \<Rightarrow> bool" where
  "fitsDomain applyEuler bMin bMax b \<longleftrightarrow>
     (let r = wallRadius applyEuler b
      in 0 \<le> cx r \<and> cx r \<le> cx bMax - cx bMin \<and>
         0 \<le> cy r \<and> cy r \<le> cy bMax - cy bMin \<and>
         0 \<le> cz r \<and> cz r \<le> cz bMax - cz bMin)"

text \<open>The body touches no wall: none of the six tests of the boundary handling fires.\<close>

definition clearOfWalls :: "(Vector3 \<Rightarrow> Vector3 \<Rightarrow> Vector3) \<Rightarrow> Vector3 \<Rightarrow> Vector3 \<Rightarrow> RigidBody \<Rightarrow> bool" where
  "clearOfWalls applyEuler bMin bMax b \<longleftrightarrow>
     (let r = wallRadius applyEuler b
      in cx bMin \<le> cx (position b) - cx r \<and> cx (position b) + cx r \<le> cx bMax \<and>
         cy bMin \<le> cy (position b) - cy r \<and> cy (position b) + cy r \<le> cy bMax \<and>
         cz bMin \<le> cz (position b) - cz r \<and> cz (position b) + cz r \<le> cz bMax)"

text \<open>
  Where an example needs some function in the place of \<^verbatim>\<open>applyEuler\<close>: the rotation by
  zero angles, at all angles. It is used for round bodies only, whose boundary handling
  never reads a rotated corner.
\<close>

definition keepCorner :: "Vector3 \<Rightarrow> Vector3 \<Rightarrow> Vector3" where
  "keepCorner corner angles = corner"

text \<open>A point or a velocity on one coordinate axis.\<close>

datatype Axis = AxisX | AxisY | AxisZ

fun alongAxis :: "Axis \<Rightarrow> real \<Rightarrow> Vector3" where
  "alongAxis AxisX k = vec3 k 0 0"
| "alongAxis AxisY k = vec3 0 k 0"
| "alongAxis AxisZ k = vec3 0 0 k"

text \<open>
  Two states agree on everything but the contents of the position and velocity
  arrays.
\<close>

definition sameButParticles :: "FluidSimulator \<Rightarrow> FluidSimulator \<Rightarrow> bool" where
  "sameButParticles s t \<longleftrightarrow>
     rigidBodies t = rigidBodies s \<and> params t = params s \<and> objectGravity t = objectGravity s \<and>
     paused t = paused s \<and> numParticles t = numParticles s \<and> densities t = densities s \<and>
     pressures t = pressures s \<and> forces t = forces s \<and>
     length (positions t) = length (positions s) \<and> length (velocities t) = length (velocities s)"

text \<open>
  A simulator state as the constructors leave it, for given particle positions and
  velocities (\<^verbatim>\<open>initParticleArrays\<close> draws them at random): the other arrays are
  zero-filled.
\<close>

definition newSimulator :: "Params \<Rightarrow> RigidBody list \<Rightarrow> Vector3 list \<Rightarrow> Vector3 list \<Rightarrow> FluidSimulator" where
  "newSimulator prm bodies ps vs =
     \<lparr>params = prm, objectGravity = - 9.8, paused = False, rigidBodies = bodies,
      numParticles = length ps, positions = ps, velocities = vs,
      densities = replicate (length ps) 0, pressures = replicate (length ps) 0,
      forces = replicate (length ps) (vec3 0 0 0)\<rparr>"

text \<open>
  Two particles 0.3 apart, inside the default smoothing radius 0.5, with densities and
  pressures filled in.
\<close>

definition twoParticles :: FluidSimulator where
  "twoParticles =
     (newSimulator defaultParams [] [vec3 0 0 0, vec3 0.3 0 0] [vec3 0 0 0, vec3 0 0 0])
       \<lparr>densities := [1000, 1200], pressures := [0, 400000]\<rparr>"

text \<open>
  A state keeps particle \<open>i\<close>: it differs at most in the position and velocity arrays,
  and not at index \<open>i\<close>.
\<close>

definition keepsParticle :: "nat \<Rightarrow> FluidSimulator \<Rightarrow> FluidSimulator \<Rightarrow> bool" where
  "keepsParticle i s t \<longleftrightarrow>
     sameButParticles s t \<and> positions t ! i = positions s ! i
     \<and> velocities t ! i = velocities s ! i"

text \<open>
  The semi-implicit Euler step in the words of the specification: the acceleration is
  force over density, the velocity gains acceleration times \<open>dt\<close>, and the position
  gains the new velocity times \<open>dt\<close>.
\<close>

definition eulerVelocity :: "real \<Rightarrow> FluidSimulator \<Rightarrow> nat \<Rightarrow> Vector3" where
  "eulerVelocity dt s i =
     addV (velocities s ! i)
          (multiplyScalar (multiplyScalar (forces s ! i) (1 / (densities s ! i))) dt)"

definition eulerPosition :: "real \<Rightarrow> FluidSimulator \<Rightarrow> nat \<Rightarrow> Vector3" where
  "eulerPosition dt s i = addV (positions s ! i) (multiplyScalar (eulerVelocity dt s i) dt)"

text \<open>
  One particle at the origin moving along x, with a given density and a force that
  divides to the acceleration \<open>-9800 / density\<close> along y.
\<close>

definition oneParticle :: "real \<Rightarrow> FluidSimulator" where
  "oneParticle dens =
     (newSimulator defaultParams [] [vec3 0 0 0] [vec3 1 0 0])
       \<lparr>densities := [dens], forces := [vec3 0 (- 9800) 0]\<rparr>"

text \<open>
  The body \<^verbatim>\<open>dropRigidBody\<close> creates under the default object parameters (scale 1, no
  rotation, density 2700), placed at a given position.
\<close>

definition droppedBody :: "string \<Rightarrow> Vector3 \<Rightarrow> RigidBody" where
  "droppedBody ty pos = newRigidBody ty pos (dropSize ty) 1 0 0 0 2700"

text \<open>A single particle at \<open>p\<close> with velocity \<open>v\<close>, and one body.\<close>

definition particleAndBody :: "Vector3 \<Rightarrow> Vector3 \<Rightarrow> RigidBody \<Rightarrow> FluidSimulator" where
  "particleAndBody p v body = newSimulator defaultParams [body] [p] [v]"

text \<open>The default sphere centred at \<open>(a, 0, 0)\<close>, moving with velocity \<open>(u, 0, 0)\<close>.\<close>

definition sphereAt :: "real \<Rightarrow> real \<Rightarrow> RigidBody" where
  "sphereAt a u = (droppedBody ''sphere'' (vec3 a 0 0))\<lparr>velocity := vec3 u 0 0\<rparr>"

text \<open>
  Two states agree on what the turn of particle \<open>i\<close> reads of the position and velocity
  arrays: the parameters are the same, and so are the position and the velocity at
  index \<open>i\<close>, which lies within both pairs of arrays.
\<close>

definition sameParticle :: "nat \<Rightarrow> FluidSimulator \<Rightarrow> FluidSimulator \<Rightarrow> bool" where
  "sameParticle i s t \<longleftrightarrow>
     params t = params s \<and> i < length (positions s) \<and> i < length (positions t) \<and>
     i < length (velocities s) \<and> i < length (velocities t) \<and>
     positions t ! i = positions s ! i \<and> velocities t ! i = velocities s ! i"

text \<open>
  What \<^verbatim>\<open>update\<close> does to body \<open>k\<close> after its first three statements (buoyant gravity,
  drag, position): the pairwise collision check, the rotation, and the boundary
  handling. Neither the gravity nor the fluid density is among its arguments.
\<close>

definition collideAndSettle ::
  "(Vector3 \<Rightarrow> Vector3 \<Rightarrow> Vector3) \<Rightarrow> nat \<Rightarrow> real \<Rightarrow> Vector3 \<Rightarrow> Vector3
     \<Rightarrow> RigidBody list \<Rightarrow> RigidBody list" where
  "collideAndSettle applyEuler k dt bMin bMax bs0 =
     (let bs = checkObjectCollisions k bs0;
          bs = bs[k := spin dt (bs ! k)]
      in bs[k := boundaryCollisions applyEuler bMin bMax (bs ! k)])"

text \<open>
  Body \<open>k\<close> overlaps no other body of the list: the pairwise check finds every other
  centre at least the sum of the two collision radii away.
\<close>

definition touchesNoBody :: "nat \<Rightarrow> RigidBody list \<Rightarrow> bool" where
  "touchesNoBody k bs \<longleftrightarrow>
     list_all (\<lambda>j. j = k \<or>
                 collisionRadius (bs ! k) + collisionRadius (bs ! j)
                   \<le> lengthV (subV (position (bs ! k)) (position (bs ! j))))
              [0..<length bs]"

text \<open>Two default spheres five apart on the x axis, both moving along x at speed 1.\<close>

definition twoSpheres :: "RigidBody list" where
  "twoSpheres = [sphereAt 0 1, sphereAt 5 1]"

section \<open>The kernels beyond and at the support radius\<close>

lemma poly6_beyond: "h < r \<Longrightarrow> poly6Kernel r h = 0"
  by (simp add: poly6Kernel_def)

lemma visc_beyond: "h < r \<Longrightarrow> viscosityLaplacian r h = 0"
  by (simp add: viscosityLaplacian_def)

lemma spiky_beyond:
  "h < sqrt (rx * rx + ry * ry + rz * rz) \<Longrightarrow> spikyGradient rx ry rz h = vec3 0 0 0"
  by (simp add: spikyGradient_def Let_def)

lemma poly6_bound:
  "0 < h \<Longrightarrow> \<bar>poly6Kernel r h\<bar>
     \<le> \<bar>315 / (64 * pi * h ^ 9) * ((h * h - r * r) * (h * h - r * r) * (h * h - r * r))\<bar>"
  by (simp add: poly6Kernel_def Let_def mult.assoc)

lemma poly6_cont:
  assumes "0 < h"
  shows "isCont (\<lambda>r. poly6Kernel r h) h"
proof -
  have z: "poly6Kernel h h = 0" by (simp add: poly6Kernel_def)
  have "((\<lambda>r. 315 / (64 * pi * h ^ 9) * ((h * h - r * r) * (h * h - r * r) * (h * h - r * r)))
          \<longlongrightarrow> 315 / (64 * pi * h ^ 9) * ((h * h - h * h) * (h * h - h * h) * (h * h - h * h)))
        (at h)"
    by (intro tendsto_intros)
  then have "((\<lambda>r. 315 / (64 * pi * h ^ 9) * ((h * h - r * r) * (h * h - r * r) * (h * h - r * r)))
          \<longlongrightarrow> 0) (at h)"
    by simp
  then have "((\<lambda>r. poly6Kernel r h) \<longlongrightarrow> 0) (at h)"
    by (rule tendsto_0_le[where K = 1])
       (use poly6_bound[OF assms] in \<open>simp add: eventually_at_filter\<close>)
  then show ?thesis by (simp add: isCont_def z)
qed

lemma visc_cont:
  assumes "0 < h"
  shows "isCont (\<lambda>r. viscosityLaplacian r h) h"
proof -
  have z: "viscosityLaplacian h h = 0" by (simp add: viscosityLaplacian_def)
  have b: "\<bar>viscosityLaplacian r h\<bar> \<le> \<bar>45 / (pi * h ^ 6) * (h - r)\<bar>" for r
    by (simp add: viscosityLaplacian_def)
  have "((\<lambda>r. 45 / (pi * h ^ 6) * (h - r)) \<longlongrightarrow> 45 / (pi * h ^ 6) * (h - h)) (at h)"
    by (intro tendsto_intros)
  then have "((\<lambda>r. 45 / (pi * h ^ 6) * (h - r)) \<longlongrightarrow> 0) (at h)"
    by simp
  then have "((\<lambda>r. viscosityLaplacian r h) \<longlongrightarrow> 0) (at h)"
    by (rule tendsto_0_le[where K = 1]) (use b in \<open>simp add: eventually_at_filter\<close>)
  then show ?thesis by (simp add: isCont_def z)
qed

lemma abs_le_norm3:
  "\<bar>a\<bar> \<le> sqrt (a * a + b * b + c * c)"
  "\<bar>b\<bar> \<le> sqrt (a * a + b * b + c * c)"
  "\<bar>c\<bar> \<le> sqrt (a * a + b * b + c * c)"
proof -
  have "sqrt (a * a) \<le> sqrt (a * a + b * b + c * c)"
    by (rule real_sqrt_le_mono) simp
  then show "\<bar>a\<bar> \<le> sqrt (a * a + b * b + c * c)" by simp
  have "sqrt (b * b) \<le> sqrt (a * a + b * b + c * c)"
    by (rule real_sqrt_le_mono) simp
  then show "\<bar>b\<bar> \<le> sqrt (a * a + b * b + c * c)" by simp
  have "sqrt (c * c) \<le> sqrt (a * a + b * b + c * c)"
    by (rule real_sqrt_le_mono) simp
  then show "\<bar>c\<bar> \<le> sqrt (a * a + b * b + c * c)" by simp
qed

lemma spiky_scaled_bound:
  assumes "0 < h" "0 < r" "\<bar>a\<bar> \<le> r"
  shows "\<bar>- 45 / (pi * h ^ 6) * ((h - r) * (h - r) / r) * a\<bar>
           \<le> 45 / (pi * h ^ 6) * ((h - r) * (h - r))"
proof -
  have K: "0 \<le> 45 / (pi * h ^ 6)" using assms by simp
  have q: "\<bar>a\<bar> / r \<le> 1" using assms by simp
  have "\<bar>- 45 / (pi * h ^ 6) * ((h - r) * (h - r) / r) * a\<bar>
        = 45 / (pi * h ^ 6) * ((h - r) * (h - r)) * (\<bar>a\<bar> / r)"
    using assms by (simp add: abs_mult)
  also have "\<dots> \<le> 45 / (pi * h ^ 6) * ((h - r) * (h - r)) * 1"
    by (rule mult_left_mono[OF q]) (use K in simp)
  finally show ?thesis by simp
qed

lemma spiky_component_bound:
  assumes "0 < h"
  shows "\<bar>cx (spikyGradient rx ry rz h)\<bar>
           \<le> 45 / (pi * h ^ 6) * ((h - sqrt (rx * rx + ry * ry + rz * rz))
                                  * (h - sqrt (rx * rx + ry * ry + rz * rz)))"
    and "\<bar>cy (spikyGradient rx ry rz h)\<bar>
           \<le> 45 / (pi * h ^ 6) * ((h - sqrt (rx * rx + ry * ry + rz * rz))
                                  * (h - sqrt (rx * rx + ry * ry + rz * rz)))"
    and "\<bar>cz (spikyGradient rx ry rz h)\<bar>
           \<le> 45 / (pi * h ^ 6) * ((h - sqrt (rx * rx + ry * ry + rz * rz))
                                  * (h - sqrt (rx * rx + ry * ry + rz * rz)))"
  using assms spiky_scaled_bound[OF assms _ abs_le_norm3(1)[of rx ry rz]]
     spiky_scaled_bound[OF assms _ abs_le_norm3(2)[of ry rx rz]]
     spiky_scaled_bound[OF assms _ abs_le_norm3(3)[of rz rx ry]]
  by (simp_all add: spikyGradient_def Let_def vec3_def)

lemma spiky_cont:
  assumes "0 < h" "0 < e"
  shows "\<exists>d>0. \<forall>rx ry rz. \<bar>sqrt (rx * rx + ry * ry + rz * rz) - h\<bar> < d \<longrightarrow>
           \<bar>cx (spikyGradient rx ry rz h)\<bar> < e \<and>
           \<bar>cy (spikyGradient rx ry rz h)\<bar> < e \<and>
           \<bar>cz (spikyGradient rx ry rz h)\<bar> < e"
proof -
  define K where "K = 45 / (pi * h ^ 6)"
  have K: "0 < K" using assms by (simp add: K_def)
  define d where "d = min 1 (e / K)"
  have d: "0 < d" "d \<le> 1" "K * d \<le> e"
    using K assms by (simp_all add: d_def min_def field_simps)
  have "\<bar>cx (spikyGradient rx ry rz h)\<bar> < e \<and>
        \<bar>cy (spikyGradient rx ry rz h)\<bar> < e \<and>
        \<bar>cz (spikyGradient rx ry rz h)\<bar> < e"
    if "\<bar>sqrt (rx * rx + ry * ry + rz * rz) - h\<bar> < d" for rx ry rz
  proof -
    define t where "t = \<bar>sqrt (rx * rx + ry * ry + rz * rz) - h\<bar>"
    have t: "0 \<le> t" "t < d" using that by (simp_all add: t_def)
    have "t * t \<le> t * 1" by (rule mult_left_mono) (use t d in simp_all)
    then have "t * t < d" using t by simp
    then have "K * (t * t) < K * d" using K by simp
    then have lt: "K * (t * t) < e" using d by simp
    have sq: "(h - sqrt (rx * rx + ry * ry + rz * rz))
                * (h - sqrt (rx * rx + ry * ry + rz * rz)) = t * t"
      by (simp add: t_def abs_mult_self_eq flip: abs_minus_commute)
    show ?thesis
      using spiky_component_bound[OF assms(1), of rx ry rz] lt
      unfolding sq K_def by linarith
  qed
  with d(1) show ?thesis by blast
qed

text \<open>
  Claim C6. For a smoothing radius \<open>h > 0\<close>: at every separation \<open>r > h\<close> the density
  kernel and the viscosity Laplacian return 0 and the pressure-gradient kernel returns
  the zero vector; the two scalar kernels are continuous at \<open>r = h\<close>, and every
  component of the gradient kernel is as small as wished once the separation is close
  enough to \<open>h\<close>, from either side and in every direction.
\<close>

theorem kernels_vanish_beyond_support:
  assumes "0 < h"
  shows "(\<forall>r. h < r \<longrightarrow> poly6Kernel r h = 0 \<and> viscosityLaplacian r h = 0)
       \<and> (\<forall>rx ry rz. h < sqrt (rx * rx + ry * ry + rz * rz)
             \<longrightarrow> spikyGradient rx ry rz h = vec3 0 0 0)
       \<and> isCont (\<lambda>r. poly6Kernel r h) h
       \<and> isCont (\<lambda>r. viscosityLaplacian r h) h
       \<and> (\<forall>e>0. \<exists>d>0. \<forall>rx ry rz. \<bar>sqrt (rx * rx + ry * ry + rz * rz) - h\<bar> < d \<longrightarrow>
             \<bar>cx (spikyGradient rx ry rz h)\<bar> < e \<and>
             \<bar>cy (spikyGradient rx ry rz h)\<bar> < e \<and>
             \<bar>cz (spikyGradient rx ry rz h)\<bar> < e)"
  using poly6_beyond visc_beyond spiky_beyond poly6_cont[OF assms] visc_cont[OF assms]
    spiky_cont[OF assms]
  by blast

theorem kernels_vanish_beyond_support_witness:
  "(0::real) < 1 / 2
   \<and> poly6Kernel 1 (1 / 2) = 0 \<and> viscosityLaplacian 1 (1 / 2) = 0
   \<and> spikyGradient 1 0 0 (1 / 2) = vec3 0 0 0
   \<and> isCont (\<lambda>r. poly6Kernel r (1 / 2)) (1 / 2)
   \<and> isCont (\<lambda>r. viscosityLaplacian r (1 / 2)) (1 / 2)
   \<and> (\<exists>d>0. \<forall>rx ry rz. \<bar>sqrt (rx * rx + ry * ry + rz * rz) - 1 / 2\<bar> < d \<longrightarrow>
          \<bar>cx (spikyGradient rx ry rz (1 / 2))\<bar> < 1 \<and>
          \<bar>cy (spikyGradient rx ry rz (1 / 2))\<bar> < 1 \<and>
          \<bar>cz (spikyGradient rx ry rz (1 / 2))\<bar> < 1)"
proof -
  have h: "(0::real) < 1 / 2" by simp
  note t = kernels_vanish_beyond_support[OF h]
  have c: "(0::real) < 1 \<longrightarrow>
        (\<exists>d>0. \<forall>rx ry rz. \<bar>sqrt (rx * rx + ry * ry + rz * rz) - 1 / 2\<bar> < d \<longrightarrow>
          \<bar>cx (spikyGradient rx ry rz (1 / 2))\<bar> < 1 \<and>
          \<bar>cy (spikyGradient rx ry rz (1 / 2))\<bar> < 1 \<and>
          \<bar>cz (spikyGradient rx ry rz (1 / 2))\<bar> < 1)"
    using t by blast
  have a: "(1 / 2 :: real) < 1
             \<longrightarrow> poly6Kernel 1 (1 / 2) = 0 \<and> viscosityLaplacian 1 (1 / 2) = 0"
    using t by blast
  have b: "(1 / 2 :: real) < sqrt (1 * 1 + 0 * 0 + 0 * 0)
             \<longrightarrow> spikyGradient 1 0 0 (1 / 2) = vec3 0 0 0"
    using t by blast
  from a b c t show ?thesis by simp
qed

section \<open>Vectors on an axis\<close>

lemma lengthV_axis:
  "lengthV \<lparr>cx = a, cy = 0, cz = 0\<rparr> = \<bar>a\<bar>"
  "lengthV \<lparr>cx = 0, cy = a, cz = 0\<rparr> = \<bar>a\<bar>"
  "lengthV \<lparr>cx = 0, cy = 0, cz = a\<rparr> = \<bar>a\<bar>"
  by (simp_all add: lengthV_def)

lemma lengthV_negate: "lengthV (multiplyScalar a (- 1)) = lengthV a"
  by (simp add: lengthV_def multiplyScalar_def)

lemma lengthV_subV_commute: "lengthV (subV a b) = lengthV (subV b a)"
proof -
  have "(p - q) * (p - q) = (q - p) * (q - p)" for p q :: real
    by (simp add: algebra_simps)
  then show ?thesis by (simp add: lengthV_def subV_def)
qed

section \<open>Pressure forces come in opposite pairs\<close>

lemma spiky_odd:
  "spikyGradient (- rx) (- ry) (- rz) h = multiplyScalar (spikyGradient rx ry rz h) (- 1)"
  by (simp add: spikyGradient_def Let_def vec3_def multiplyScalar_def)

lemma subV_swap_components:
  "cx (subV b a) = - cx (subV a b)"
  "cy (subV b a) = - cy (subV a b)"
  "cz (subV b a) = - cz (subV a b)"
  by (simp_all add: subV_def)

lemma pressure_increment:
  "subV (pressureStep s i j f) f =
     multiplyScalar
       (spikyGradient (cx (subV (positions s ! i) (positions s ! j)))
                      (cy (subV (positions s ! i) (positions s ! j)))
                      (cz (subV (positions s ! i) (positions s ! j)))
                      (smoothingRadius (params s)))
       (- (particleMass (params s) *
            (pressures s ! i / (densities s ! i * densities s ! i) +
             pressures s ! j / (densities s ! j * densities s ! j))))"
  by (simp add: pressureStep_def Let_def subV_def multiplyScalar_def)

lemma pressure_increment_antisymmetric:
  "subV (pressureStep s i j f) f = multiplyScalar (subV (pressureStep s j i g) g) (- 1)"
  unfolding pressure_increment
    subV_swap_components(1)[of "positions s ! j" "positions s ! i"]
    subV_swap_components(2)[of "positions s ! j" "positions s ! i"]
    subV_swap_components(3)[of "positions s ! j" "positions s ! i"] spiky_odd
  by (simp add: multiplyScalar_def add.commute)

text \<open>
  Claim C3. For two distinct particles \<open>i\<close> and \<open>j\<close> at a separation \<open>r\<close> with
  \<open>0 < r < h\<close> and nonzero densities, the force pass runs the pressure update for the
  pair in both directions, and what it adds to the accumulator of \<open>i\<close> on account of
  \<open>j\<close> is the negative of what it adds to the accumulator of \<open>j\<close> on account of \<open>i\<close>:
  opposite vectors of equal length, exactly.
\<close>

theorem pressure_force_newton_third_law:
  assumes "i \<noteq> j"
    and "0 < lengthV (subV (positions s ! i) (positions s ! j))"
    and "lengthV (subV (positions s ! i) (positions s ! j)) < smoothingRadius (params s)"
    and "densities s ! i \<noteq> 0" and "densities s ! j \<noteq> 0"
  shows "neighbourStep s i j f = viscosityStep s i j (pressureStep s i j f)
       \<and> neighbourStep s j i g = viscosityStep s j i (pressureStep s j i g)
       \<and> subV (pressureStep s i j f) f = multiplyScalar (subV (pressureStep s j i g) g) (- 1)
       \<and> lengthV (subV (pressureStep s i j f) f) = lengthV (subV (pressureStep s j i g) g)"
proof -
  have r: "lengthV (subV (positions s ! j) (positions s ! i)) < smoothingRadius (params s)"
    using assms(3) by (simp add: lengthV_subV_commute)
  have a: "subV (pressureStep s i j f) f = multiplyScalar (subV (pressureStep s j i g) g) (- 1)"
    by (rule pressure_increment_antisymmetric)
  have "lengthV (subV (pressureStep s i j f) f) = lengthV (subV (pressureStep s j i g) g)"
    unfolding a by (rule lengthV_negate)
  with a assms(1,3) r show ?thesis
    by (simp add: neighbourStep_def Let_def)
qed

theorem pressure_force_newton_third_law_witness:
  "(0::nat) \<noteq> 1
   \<and> 0 < lengthV (subV (positions twoParticles ! 0) (positions twoParticles ! 1))
   \<and> lengthV (subV (positions twoParticles ! 0) (positions twoParticles ! 1))
       < smoothingRadius (params twoParticles)
   \<and> densities twoParticles ! 0 \<noteq> 0 \<and> densities twoParticles ! 1 \<noteq> 0
   \<and> subV (pressureStep twoParticles 0 1 (vec3 0 0 0)) (vec3 0 0 0)
       = multiplyScalar (subV (pressureStep twoParticles 1 0 (vec3 0 0 0)) (vec3 0 0 0)) (- 1)"
proof -
  have h1: "(0::nat) \<noteq> 1" by simp
  have len: "lengthV (subV (positions twoParticles ! 0) (positions twoParticles ! 1)) = 3 / 10"
    by (simp add: twoParticles_def newSimulator_def subV_def vec3_def lengthV_axis)
  have h2: "0 < lengthV (subV (positions twoParticles ! 0) (positions twoParticles ! 1))"
    unfolding len by simp
  have h3: "lengthV (subV (positions twoParticles ! 0) (positions twoParticles ! 1))
              < smoothingRadius (params twoParticles)"
    unfolding len by (simp add: twoParticles_def newSimulator_def defaultParams_def)
  have h4: "densities twoParticles ! 0 \<noteq> 0"
    by (simp add: twoParticles_def)
  have h5: "densities twoParticles ! 1 \<noteq> 0"
    by (simp add: twoParticles_def)
  from pressure_force_newton_third_law[OF h1 h2 h3 h4 h5, of "vec3 0 0 0" "vec3 0 0 0"]
    h1 h2 h3 h4 h5
  show ?thesis by blast
qed

section \<open>The coupling pass writes particle arrays only\<close>

lemma sameButParticles_refl: "sameButParticles s s"
  by (simp add: sameButParticles_def)

lemma sameButParticles_trans:
  "sameButParticles s t \<Longrightarrow> sameButParticles t u \<Longrightarrow> sameButParticles s u"
  by (simp add: sameButParticles_def)

lemma sameButParticles_if:
  "sameButParticles s a \<Longrightarrow> sameButParticles s b \<Longrightarrow> sameButParticles s (if c then a else b)"
  by simp

lemma sameButParticles_update:
  "length ps = length (positions s) \<Longrightarrow> length vs = length (velocities s) \<Longrightarrow>
   sameButParticles s (s\<lparr>positions := ps, velocities := vs\<rparr>)"
  "length ps = length (positions s) \<Longrightarrow> sameButParticles s (s\<lparr>positions := ps\<rparr>)"
  "length vs = length (velocities s) \<Longrightarrow> sameButParticles s (s\<lparr>velocities := vs\<rparr>)"
  by (simp_all add: sameButParticles_def)

lemma sphereTest_frame: "sameButParticles s (sphereTest i dx dy dz body s)"
  unfolding sphereTest_def Let_def
  by (intro sameButParticles_if sameButParticles_update sameButParticles_refl) simp_all

lemma cubeTest_frame: "sameButParticles s (cubeTest i dx dy dz body s)"
  unfolding cubeTest_def Let_def
  by (intro sameButParticles_if sameButParticles_update sameButParticles_refl) simp_all

lemma particleBodyStep_frame: "sameButParticles s (particleBodyStep i p body s)"
  unfolding particleBodyStep_def Let_def
  by (intro sameButParticles_if sphereTest_frame cubeTest_frame sameButParticles_refl)

lemma fold_particleBodyStep_frame:
  "sameButParticles s (fold (particleBodyStep i p) bodies s)"
proof (induction bodies arbitrary: s)
  case Nil
  show ?case by (simp add: sameButParticles_refl)
next
  case (Cons body bodies)
  have "sameButParticles s (particleBodyStep i p body s)"
    by (rule particleBodyStep_frame)
  moreover have "sameButParticles (particleBodyStep i p body s)
                   (fold (particleBodyStep i p) bodies (particleBodyStep i p body s))"
    by (rule Cons.IH)
  ultimately show ?case
    using sameButParticles_trans by fastforce
qed

lemma handleRigidBodyCollisions_frame:
  "sameButParticles s (handleRigidBodyCollisions i bodies s)"
  by (simp add: handleRigidBodyCollisions_def Let_def fold_particleBodyStep_frame)

section \<open>The integration pass, particle by particle\<close>

lemma keepsParticle_refl: "keepsParticle i s s"
  by (simp add: keepsParticle_def sameButParticles_refl)

lemma keepsParticle_trans:
  "keepsParticle i s t \<Longrightarrow> keepsParticle i t u \<Longrightarrow> keepsParticle i s u"
  using sameButParticles_trans by (fastforce simp: keepsParticle_def)

lemma keepsParticle_if:
  "keepsParticle i s a \<Longrightarrow> keepsParticle i s b \<Longrightarrow> keepsParticle i s (if c then a else b)"
  by simp

lemma keepsParticle_update:
  "length ps = length (positions s) \<Longrightarrow> length vs = length (velocities s) \<Longrightarrow>
   ps ! i = positions s ! i \<Longrightarrow> vs ! i = velocities s ! i \<Longrightarrow>
   keepsParticle i s (s\<lparr>positions := ps, velocities := vs\<rparr>)"
  "length ps = length (positions s) \<Longrightarrow> ps ! i = positions s ! i \<Longrightarrow>
   keepsParticle i s (s\<lparr>positions := ps\<rparr>)"
  "length vs = length (velocities s) \<Longrightarrow> vs ! i = velocities s ! i \<Longrightarrow>
   keepsParticle i s (s\<lparr>velocities := vs\<rparr>)"
  by (simp_all add: keepsParticle_def sameButParticles_def)

lemma sphereTest_keeps: "j \<noteq> i \<Longrightarrow> keepsParticle i s (sphereTest j dx dy dz body s)"
  unfolding sphereTest_def Let_def
  by (intro keepsParticle_if keepsParticle_update keepsParticle_refl) simp_all

lemma cubeTest_keeps: "j \<noteq> i \<Longrightarrow> keepsParticle i s (cubeTest j dx dy dz body s)"
  unfolding cubeTest_def Let_def
  by (intro keepsParticle_if keepsParticle_update keepsParticle_refl) simp_all

lemma particleBodyStep_keeps: "j \<noteq> i \<Longrightarrow> keepsParticle i s (particleBodyStep j p body s)"
  unfolding particleBodyStep_def Let_def
  by (intro keepsParticle_if sphereTest_keeps cubeTest_keeps keepsParticle_refl)

lemma fold_particleBodyStep_keeps:
  "j \<noteq> i \<Longrightarrow> keepsParticle i s (fold (particleBodyStep j p) bodies s)"
proof (induction bodies arbitrary: s)
  case Nil
  show ?case by (simp add: keepsParticle_refl)
next
  case (Cons body bodies)
  have "keepsParticle i s (particleBodyStep j p body s)"
    using Cons.prems by (rule particleBodyStep_keeps)
  moreover have "keepsParticle i (particleBodyStep j p body s)
                   (fold (particleBodyStep j p) bodies (particleBodyStep j p body s))"
    using Cons.prems by (rule Cons.IH)
  ultimately show ?case
    using keepsParticle_trans by fastforce
qed

lemma handleRigidBodyCollisions_keeps:
  "j \<noteq> i \<Longrightarrow> keepsParticle i s (handleRigidBodyCollisions j bodies s)"
  by (simp add: handleRigidBodyCollisions_def Let_def fold_particleBodyStep_keeps)

lemma handleBoundaryCollision_frame: "sameButParticles s (handleBoundaryCollision i s)"
  by (simp add: handleBoundaryCollision_def case_prod_beta sameButParticles_def)

lemma handleBoundaryCollision_keeps:
  "j \<noteq> i \<Longrightarrow> keepsParticle i s (handleBoundaryCollision j s)"
  by (simp add: handleBoundaryCollision_def case_prod_beta keepsParticle_def sameButParticles_def)

lemma integrateParticle_frame: "sameButParticles s (integrateParticle dt bodies i s)"
proof -
  let ?s2 = "s\<lparr>velocities := (velocities s)[i := a], positions := (positions s)[i := b]\<rparr>"
  have "sameButParticles s (handleRigidBodyCollisions i bodies (handleBoundaryCollision i (s\<lparr>velocities := vs, positions := ps\<rparr>)))"
    if "length vs = length (velocities s)" "length ps = length (positions s)" for vs ps
  proof -
    have 1: "sameButParticles s (s\<lparr>velocities := vs, positions := ps\<rparr>)"
      using that by (simp add: sameButParticles_def)
    have 2: "sameButParticles (s\<lparr>velocities := vs, positions := ps\<rparr>) (handleBoundaryCollision i (s\<lparr>velocities := vs, positions := ps\<rparr>))"
      by (rule handleBoundaryCollision_frame)
    have 3: "sameButParticles (handleBoundaryCollision i (s\<lparr>velocities := vs, positions := ps\<rparr>))
              (handleRigidBodyCollisions i bodies (handleBoundaryCollision i (s\<lparr>velocities := vs, positions := ps\<rparr>)))"
      by (rule handleRigidBodyCollisions_frame)
    from 1 2 3 show ?thesis using sameButParticles_trans by blast
  qed
  then show ?thesis
    unfolding integrateParticle_def Let_def
    by (intro sameButParticles_if sameButParticles_refl) simp
qed


lemma integrateParticle_keeps:
  assumes "j \<noteq> i"
  shows "keepsParticle i s (integrateParticle dt bodies j s)"
proof -
  have "keepsParticle i s (handleRigidBodyCollisions j bodies
          (handleBoundaryCollision j (s\<lparr>velocities := (velocities s)[j := a], positions := (positions s)[j := b]\<rparr>)))"
    (is "keepsParticle i s (handleRigidBodyCollisions j bodies (handleBoundaryCollision j ?s2))")
    for a b
  proof -
    have 1: "keepsParticle i s ?s2"
      using assms by (simp add: keepsParticle_def sameButParticles_def)
    have 2: "keepsParticle i ?s2 (handleBoundaryCollision j ?s2)"
      using assms by (rule handleBoundaryCollision_keeps)
    have 3: "keepsParticle i (handleBoundaryCollision j ?s2)
               (handleRigidBodyCollisions j bodies (handleBoundaryCollision j ?s2))"
      using assms by (rule handleRigidBodyCollisions_keeps)
    from 1 2 3 show ?thesis using keepsParticle_trans by blast
  qed
  then show ?thesis
    unfolding integrateParticle_def Let_def
    by (intro keepsParticle_if keepsParticle_refl) simp
qed

lemma integrateParticle_skip:
  "densities s ! i < 1 \<Longrightarrow> integrateParticle dt bodies i s = s"
  by (simp add: integrateParticle_def)

lemma integrateParticle_keeps_skipped:
  assumes "densities s ! i < 1"
  shows "keepsParticle i s (integrateParticle dt bodies j s)"
proof (cases "j = i")
  case True
  then show ?thesis using assms by (simp add: integrateParticle_skip keepsParticle_refl)
next
  case False
  then show ?thesis by (rule integrateParticle_keeps)
qed

lemma fold_integrateParticle_keeps_skipped:
  "densities s ! i < 1 \<Longrightarrow> keepsParticle i s (fold (integrateParticle dt bodies) js s)"
proof (induction js arbitrary: s)
  case Nil
  show ?case by (simp add: keepsParticle_refl)
next
  case (Cons j js)
  have 1: "keepsParticle i s (integrateParticle dt bodies j s)"
    using Cons.prems by (rule integrateParticle_keeps_skipped)
  then have "densities (integrateParticle dt bodies j s) ! i < 1"
    using Cons.prems by (simp add: keepsParticle_def sameButParticles_def)
  then have "keepsParticle i (integrateParticle dt bodies j s)
               (fold (integrateParticle dt bodies) js (integrateParticle dt bodies j s))"
    by (rule Cons.IH)
  with 1 show ?case
    using keepsParticle_trans by fastforce
qed

lemma fold_integrateParticle_frame:
  "sameButParticles s (fold (integrateParticle dt bodies) js s)"
proof (induction js arbitrary: s)
  case Nil
  show ?case by (simp add: sameButParticles_refl)
next
  case (Cons j js)
  have "sameButParticles s (integrateParticle dt bodies j s)"
    by (rule integrateParticle_frame)
  moreover have "sameButParticles (integrateParticle dt bodies j s)
               (fold (integrateParticle dt bodies) js (integrateParticle dt bodies j s))"
    by (rule Cons.IH)
  ultimately show ?case
    using sameButParticles_trans by fastforce
qed

lemma integrateParticle_euler:
  assumes "i < length (velocities s)" "\<not> densities s ! i < 1"
  shows "integrateParticle dt bodies i s =
           handleRigidBodyCollisions i bodies
             (handleBoundaryCollision i
                (s\<lparr>velocities := (velocities s)[i := eulerVelocity dt s i],
                   positions := (positions s)[i := eulerPosition dt s i]\<rparr>))"
  using assms
  by (simp add: integrateParticle_def Let_def eulerVelocity_def eulerPosition_def
      addV_def multiplyScalar_def vec3_def)

lemma boundaryResponse_inside:
  assumes "withinBounds (boundMin prm) (boundMax prm) p"
  shows "boundaryResponse prm (p, v) = (p, v)"
  using assms by (simp add: boundaryResponse_def withinBounds_def Let_def)

lemma integrateParticle_free:
  assumes "i < length (velocities s)" "i < length (positions s)" "\<not> densities s ! i < 1"
    and "withinBounds (boundMin (params s)) (boundMax (params s)) (eulerPosition dt s i)"
  shows "positions (integrateParticle dt [] i s) ! i = eulerPosition dt s i"
    and "velocities (integrateParticle dt [] i s) ! i = eulerVelocity dt s i"
  using assms
  by (simp_all add: integrateParticle_euler handleRigidBodyCollisions_def
      handleBoundaryCollision_def boundaryResponse_inside)

lemma sameParticle_if:
  "sameParticle i a a' \<Longrightarrow> sameParticle i b b' \<Longrightarrow>
   sameParticle i (if c then a else b) (if c then a' else b')"
  by simp

lemma sphereTest_local:
  assumes "sameParticle i s t"
  shows "sameParticle i (sphereTest i dx dy dz body s) (sphereTest i dx dy dz body t)"
proof -
  have eq: "params t = params s" "velocities t ! i = velocities s ! i"
    "positions t ! i = positions s ! i"
    and len: "i < length (positions s)" "i < length (positions t)"
    "i < length (velocities s)" "i < length (velocities t)"
    using assms by (simp_all add: sameParticle_def)
  show ?thesis
    unfolding sphereTest_def Let_def
    by (simp add: eq len sameParticle_def)
qed

lemma cubeTest_local:
  assumes "sameParticle i s t"
  shows "sameParticle i (cubeTest i dx dy dz body s) (cubeTest i dx dy dz body t)"
proof -
  have eq: "params t = params s" "velocities t ! i = velocities s ! i"
    "positions t ! i = positions s ! i"
    and len: "i < length (positions s)" "i < length (positions t)"
    "i < length (velocities s)" "i < length (velocities t)"
    using assms by (simp_all add: sameParticle_def)
  show ?thesis
    unfolding cubeTest_def Let_def eq
    by (intro sameParticle_if assms) (simp_all add: sameParticle_def eq len)
qed


lemma particleBodyStep_local:
  assumes "sameParticle i s t"
  shows "sameParticle i (particleBodyStep i p body s) (particleBodyStep i p body t)"
  unfolding particleBodyStep_def Let_def
  by (intro sameParticle_if sphereTest_local cubeTest_local assms)

lemma fold_particleBodyStep_local:
  "sameParticle i s t \<Longrightarrow>
   sameParticle i (fold (particleBodyStep i p) bodies s) (fold (particleBodyStep i p) bodies t)"
proof (induction bodies arbitrary: s t)
  case Nil
  then show ?case by simp
next
  case (Cons body bodies)
  have "sameParticle i (particleBodyStep i p body s) (particleBodyStep i p body t)"
    using Cons.prems by (rule particleBodyStep_local)
  then have "sameParticle i
      (fold (particleBodyStep i p) bodies (particleBodyStep i p body s))
      (fold (particleBodyStep i p) bodies (particleBodyStep i p body t))"
    by (rule Cons.IH)
  then show ?case by simp
qed

lemma handleRigidBodyCollisions_local:
  assumes "sameParticle i s t"
  shows "sameParticle i (handleRigidBodyCollisions i bodies s)
           (handleRigidBodyCollisions i bodies t)"
proof -
  have "positions t ! i = positions s ! i"
    using assms by (simp add: sameParticle_def)
  then show ?thesis
    using fold_particleBodyStep_local[OF assms, of "positions s ! i" bodies]
    by (simp add: handleRigidBodyCollisions_def Let_def)
qed

lemma handleBoundaryCollision_local:
  assumes "sameParticle i s t"
  shows "sameParticle i (handleBoundaryCollision i s) (handleBoundaryCollision i t)"
  using assms
  by (simp add: handleBoundaryCollision_def case_prod_beta sameParticle_def)

lemma euler_local:
  assumes "keepsParticle i s t" "i < length (positions s)" "i < length (velocities s)"
  shows "sameParticle i
           (s\<lparr>velocities := (velocities s)[i := eulerVelocity dt s i],
              positions := (positions s)[i := eulerPosition dt s i]\<rparr>)
           (t\<lparr>velocities := (velocities t)[i := eulerVelocity dt t i],
              positions := (positions t)[i := eulerPosition dt t i]\<rparr>)"
proof -
  have k: "params t = params s" "densities t = densities s" "forces t = forces s"
    "length (positions t) = length (positions s)"
    "length (velocities t) = length (velocities s)"
    "positions t ! i = positions s ! i" "velocities t ! i = velocities s ! i"
    using assms(1) by (simp_all add: keepsParticle_def sameButParticles_def)
  have "eulerVelocity dt t i = eulerVelocity dt s i"
    by (simp add: eulerVelocity_def k)
  moreover from this have "eulerPosition dt t i = eulerPosition dt s i"
    by (simp add: eulerPosition_def k)
  ultimately show ?thesis
    using assms(2,3) by (simp add: sameParticle_def k)
qed

lemma integrateParticle_local:
  assumes "keepsParticle i s t" "i < length (positions s)" "i < length (velocities s)"
  shows "positions (integrateParticle dt bodies i t) ! i
           = positions (integrateParticle dt bodies i s) ! i
       \<and> velocities (integrateParticle dt bodies i t) ! i
           = velocities (integrateParticle dt bodies i s) ! i"
proof (cases "densities s ! i < 1")
  case True
  moreover have "densities t = densities s"
    "positions t ! i = positions s ! i" "velocities t ! i = velocities s ! i"
    using assms(1) by (simp_all add: keepsParticle_def sameButParticles_def)
  ultimately show ?thesis by (simp add: integrateParticle_skip)
next
  case False
  have d: "densities t = densities s" "length (velocities t) = length (velocities s)"
    using assms(1) by (simp_all add: keepsParticle_def sameButParticles_def)
  have ft: "\<not> densities t ! i < 1" using False d by simp
  have lt: "i < length (velocities t)" using assms(3) d by simp
  have "sameParticle i
          (handleRigidBodyCollisions i bodies (handleBoundaryCollision i
             (s\<lparr>velocities := (velocities s)[i := eulerVelocity dt s i],
                positions := (positions s)[i := eulerPosition dt s i]\<rparr>)))
          (handleRigidBodyCollisions i bodies (handleBoundaryCollision i
             (t\<lparr>velocities := (velocities t)[i := eulerVelocity dt t i],
                positions := (positions t)[i := eulerPosition dt t i]\<rparr>)))"
    by (intro handleRigidBodyCollisions_local handleBoundaryCollision_local euler_local assms)
  then show ?thesis
    unfolding integrateParticle_euler[OF assms(3) False] integrateParticle_euler[OF lt ft]
    by (simp add: sameParticle_def)
qed

lemma fold_integrateParticle_keeps:
  "i \<notin> set js \<Longrightarrow> keepsParticle i s (fold (integrateParticle dt bodies) js s)"
proof (induction js arbitrary: s)
  case Nil
  show ?case by (simp add: keepsParticle_refl)
next
  case (Cons j js)
  then have "j \<noteq> i" "i \<notin> set js" by auto
  have 1: "keepsParticle i s (integrateParticle dt bodies j s)"
    using \<open>j \<noteq> i\<close> by (rule integrateParticle_keeps)
  have 2: "keepsParticle i (integrateParticle dt bodies j s)
             (fold (integrateParticle dt bodies) js (integrateParticle dt bodies j s))"
    using \<open>i \<notin> set js\<close> by (rule Cons.IH)
  from 1 2 show ?case
    using keepsParticle_trans by fastforce
qed

lemma integrate_at:
  assumes "wellFormed s" "i < numParticles s"
  shows "positions (integrate dt bodies s) ! i = positions (integrateParticle dt bodies i s) ! i"
    and "velocities (integrate dt bodies s) ! i = velocities (integrateParticle dt bodies i s) ! i"
proof -
  let ?ip = "integrateParticle dt bodies"
  define t where "t = fold ?ip [0..<i] s"
  define u where "u = fold ?ip [Suc i..<numParticles s] (?ip i t)"
  have split: "[0..<numParticles s] = [0..<i] @ i # [Suc i..<numParticles s]"
    using assms(2) by (metis less_imp_le_nat upt_add_eq_append upt_conv_Cons le0 add_0 le_add_diff_inverse)
  have whole: "integrate dt bodies s = u"
    by (simp add: integrate_def split t_def u_def)
  have len: "i < length (positions s)" "i < length (velocities s)"
    using assms by (simp_all add: wellFormed_def)
  have kt: "keepsParticle i s t"
    unfolding t_def by (rule fold_integrateParticle_keeps) simp
  have ku: "keepsParticle i (?ip i t) u"
    unfolding u_def by (rule fold_integrateParticle_keeps) simp
  note loc = integrateParticle_local[OF kt len, of dt bodies]
  from ku loc
  show "positions (integrate dt bodies s) ! i = positions (?ip i s) ! i"
    and "velocities (integrate dt bodies s) ! i = velocities (?ip i s) ! i"
    unfolding whole by (simp_all add: keepsParticle_def)
qed

text \<open>
  Claim C7. In the integration pass, a particle whose density is below the floor 1.0 is
  passed over: its own turn returns the state as it was, and its position and velocity
  are the same after the whole pass as before. A particle at or above the floor leaves
  the whole pass with the position and velocity that the semi-implicit Euler step
  (velocity first, the new velocity moves the position), followed by the boundary pass
  and the coupling pass for that particle, makes of its position, velocity, force and
  density at the start of the pass; the turns of the other particles do not enter. With
  no wall reached and no body, the particle leaves the pass at exactly the Euler
  velocity and position. The pass is a total function: no turn fails, and it keeps the
  number of particles and the lengths of the arrays.
\<close>

theorem integration_pass_semi_implicit_euler:
  assumes "wellFormed s" and "i < numParticles s"
  shows "(densities s ! i < 1 \<longrightarrow>
            integrateParticle dt bodies i s = s
          \<and> positions (integrate dt bodies s) ! i = positions s ! i
          \<and> velocities (integrate dt bodies s) ! i = velocities s ! i)
       \<and> (1 \<le> densities s ! i \<longrightarrow>
            integrateParticle dt bodies i s =
              handleRigidBodyCollisions i bodies
                (handleBoundaryCollision i
                   (s\<lparr>velocities := (velocities s)[i := eulerVelocity dt s i],
                      positions := (positions s)[i := eulerPosition dt s i]\<rparr>))
          \<and> positions (integrate dt bodies s) ! i =
              positions (handleRigidBodyCollisions i bodies
                (handleBoundaryCollision i
                   (s\<lparr>velocities := (velocities s)[i := eulerVelocity dt s i],
                      positions := (positions s)[i := eulerPosition dt s i]\<rparr>))) ! i
          \<and> velocities (integrate dt bodies s) ! i =
              velocities (handleRigidBodyCollisions i bodies
                (handleBoundaryCollision i
                   (s\<lparr>velocities := (velocities s)[i := eulerVelocity dt s i],
                      positions := (positions s)[i := eulerPosition dt s i]\<rparr>))) ! i)
       \<and> (1 \<le> densities s ! i
            \<and> withinBounds (boundMin (params s)) (boundMax (params s)) (eulerPosition dt s i) \<longrightarrow>
            velocities (integrate dt [] s) ! i = eulerVelocity dt s i
          \<and> positions (integrate dt [] s) ! i = eulerPosition dt s i
          \<and> velocities (integrateParticle dt [] i s) ! i = eulerVelocity dt s i
          \<and> positions (integrateParticle dt [] i s) ! i = eulerPosition dt s i)
       \<and> numParticles (integrate dt bodies s) = numParticles s
       \<and> length (positions (integrate dt bodies s)) = length (positions s)
       \<and> length (velocities (integrate dt bodies s)) = length (velocities s)"
proof -
  have len: "i < length (velocities s)" "i < length (positions s)"
    using assms by (simp_all add: wellFormed_def)
  have skip: "positions (integrate dt bodies s) ! i = positions s ! i
              \<and> velocities (integrate dt bodies s) ! i = velocities s ! i"
    if "densities s ! i < 1"
    using fold_integrateParticle_keeps_skipped[OF that, of dt bodies "[0..<numParticles s]"]
    by (simp add: integrate_def keepsParticle_def)
  have turn: "integrateParticle dt bodies i s =
              handleRigidBodyCollisions i bodies
                (handleBoundaryCollision i
                   (s\<lparr>velocities := (velocities s)[i := eulerVelocity dt s i],
                      positions := (positions s)[i := eulerPosition dt s i]\<rparr>))"
    if "1 \<le> densities s ! i"
    using that integrateParticle_euler[OF len(1), of dt bodies] by (simp add: not_less)
  have pass: "positions (integrate dt bodies s) ! i =
              positions (handleRigidBodyCollisions i bodies
                (handleBoundaryCollision i
                   (s\<lparr>velocities := (velocities s)[i := eulerVelocity dt s i],
                      positions := (positions s)[i := eulerPosition dt s i]\<rparr>))) ! i
          \<and> velocities (integrate dt bodies s) ! i =
              velocities (handleRigidBodyCollisions i bodies
                (handleBoundaryCollision i
                   (s\<lparr>velocities := (velocities s)[i := eulerVelocity dt s i],
                      positions := (positions s)[i := eulerPosition dt s i]\<rparr>))) ! i"
    if "1 \<le> densities s ! i"
    unfolding integrate_at[OF assms] turn[OF that] by simp
  have free: "velocities (integrate dt [] s) ! i = eulerVelocity dt s i
          \<and> positions (integrate dt [] s) ! i = eulerPosition dt s i
          \<and> velocities (integrateParticle dt [] i s) ! i = eulerVelocity dt s i
          \<and> positions (integrateParticle dt [] i s) ! i = eulerPosition dt s i"
    if "1 \<le> densities s ! i"
      and "withinBounds (boundMin (params s)) (boundMax (params s)) (eulerPosition dt s i)"
    unfolding integrate_at[OF assms]
    using integrateParticle_free[OF len _ that(2)] that(1) by (simp add: not_less)
  have frame: "numParticles (integrate dt bodies s) = numParticles s
       \<and> length (positions (integrate dt bodies s)) = length (positions s)
       \<and> length (velocities (integrate dt bodies s)) = length (velocities s)"
    using fold_integrateParticle_frame[of s dt bodies "[0..<numParticles s]"]
    by (simp add: sameButParticles_def integrate_def)
  have own: "integrateParticle dt bodies i s = s" if "densities s ! i < 1"
    using that by (rule integrateParticle_skip)
  from own skip turn pass free frame show ?thesis by blast
qed

theorem integration_pass_semi_implicit_euler_witness:
  "wellFormed (oneParticle (1 / 2)) \<and> 0 < numParticles (oneParticle (1 / 2))
   \<and> densities (oneParticle (1 / 2)) ! 0 < 1
   \<and> positions (integrate (3 / 1000) [] (oneParticle (1 / 2))) ! 0 = vec3 0 0 0
   \<and> velocities (integrate (3 / 1000) [] (oneParticle (1 / 2))) ! 0 = vec3 1 0 0
   \<and> wellFormed (oneParticle 1000) \<and> 0 < numParticles (oneParticle 1000)
   \<and> 1 \<le> densities (oneParticle 1000) ! 0
   \<and> withinBounds (boundMin (params (oneParticle 1000))) (boundMax (params (oneParticle 1000)))
        (eulerPosition (3 / 1000) (oneParticle 1000) 0)
   \<and> velocities (integrate (3 / 1000) [] (oneParticle 1000)) ! 0
        = vec3 1 (- 147 / 5000) 0
   \<and> positions (integrate (3 / 1000) [] (oneParticle 1000)) ! 0
        = vec3 (3 / 1000) (- 441 / 5000000) 0"
proof -
  have w1: "wellFormed (oneParticle (1 / 2))" and n1: "0 < numParticles (oneParticle (1 / 2))"
    and d1: "densities (oneParticle (1 / 2)) ! 0 < 1"
    by (simp_all add: oneParticle_def newSimulator_def wellFormed_def)
  have w2: "wellFormed (oneParticle 1000)" and n2: "0 < numParticles (oneParticle 1000)"
    and d2: "1 \<le> densities (oneParticle 1000) ! 0"
    by (simp_all add: oneParticle_def newSimulator_def wellFormed_def)
  have ev: "eulerVelocity (3 / 1000) (oneParticle 1000) 0 = vec3 1 (- 147 / 5000) 0"
    by (simp add: eulerVelocity_def oneParticle_def newSimulator_def addV_def
        multiplyScalar_def vec3_def)
  have ep: "eulerPosition (3 / 1000) (oneParticle 1000) 0 = vec3 (3 / 1000) (- 441 / 5000000) 0"
    unfolding eulerPosition_def ev
    by (simp add: oneParticle_def newSimulator_def addV_def multiplyScalar_def vec3_def)
  have b2: "withinBounds (boundMin (params (oneParticle 1000)))
              (boundMax (params (oneParticle 1000))) (eulerPosition (3 / 1000) (oneParticle 1000) 0)"
    unfolding ep
    by (simp add: withinBounds_def oneParticle_def newSimulator_def defaultParams_def vec3_def)
  have p0: "positions (oneParticle (1 / 2)) ! 0 = vec3 0 0 0"
    and v0: "velocities (oneParticle (1 / 2)) ! 0 = vec3 1 0 0"
    by (simp_all add: oneParticle_def newSimulator_def)
  from integration_pass_semi_implicit_euler[OF w1 n1, of "3 / 1000" "[]"] d1
  have r1: "positions (integrate (3 / 1000) [] (oneParticle (1 / 2))) ! 0
              = positions (oneParticle (1 / 2)) ! 0
          \<and> velocities (integrate (3 / 1000) [] (oneParticle (1 / 2))) ! 0
              = velocities (oneParticle (1 / 2)) ! 0"
    by blast
  from integration_pass_semi_implicit_euler[OF w2 n2, of "3 / 1000" "[]"] d2 b2
  have r2: "velocities (integrate (3 / 1000) [] (oneParticle 1000)) ! 0
              = eulerVelocity (3 / 1000) (oneParticle 1000) 0
          \<and> positions (integrate (3 / 1000) [] (oneParticle 1000)) ! 0
              = eulerPosition (3 / 1000) (oneParticle 1000) 0"
    by blast
  from r1 r2 w1 n1 d1 w2 n2 d2 b2 show ?thesis
    unfolding p0 v0 ev ep by blast
qed

section \<open>The density pass\<close>

lemma fold_conditional_sum:
  "fold (\<lambda>j acc. if c j then acc + g j else acc) xs a
     = a + sum_list (map (\<lambda>j. if c j then g j else (0::real)) xs)"
  by (induction xs arbitrary: a) simp_all

lemma densityAt_sum:
  "densityAt s i =
     sum_list (map (\<lambda>j. if lengthV (subV (positions s ! i) (positions s ! j)) < smoothingRadius (params s)
                        then particleMass (params s)
                             * poly6Kernel (lengthV (subV (positions s ! i) (positions s ! j)))
                                 (smoothingRadius (params s))
                        else 0)
              [0..<numParticles s])"
  by (simp add: densityAt_def Let_def fold_conditional_sum)

lemma poly6_nonneg:
  assumes "0 < h"
  shows "0 \<le> poly6Kernel r h"
proof (cases "0 \<le> r \<and> r \<le> h")
  case True
  then have "r * r \<le> h * h" by (simp add: mult_mono)
  then have t: "0 \<le> h * h - r * r" by simp
  have c: "0 \<le> 315 / (64 * pi * h ^ 9)" using assms by simp
  have "0 \<le> 315 / (64 * pi * h ^ 9) * (h * h - r * r) * (h * h - r * r) * (h * h - r * r)"
    using c t by (intro mult_nonneg_nonneg)
  moreover have "poly6Kernel r h
      = 315 / (64 * pi * h ^ 9) * (h * h - r * r) * (h * h - r * r) * (h * h - r * r)"
    by (simp only: poly6Kernel_def Let_def True simp_thms if_True)
  ultimately show ?thesis by simp
next
  case False
  have "poly6Kernel r h = 0"
    by (simp only: poly6Kernel_def False simp_thms if_False)
  then show ?thesis by simp
qed

lemma poly6_self:
  assumes "0 < h"
  shows "poly6Kernel 0 h = 315 / (64 * pi * h ^ 3)"
proof -
  have "h ^ 9 = h ^ 3 * (h * h * (h * h) * (h * h))" by (simp add: power_numeral_reduce)
  then show ?thesis using assms by (simp add: poly6Kernel_def Let_def)
qed

lemma lengthV_self: "lengthV (subV p p) = 0"
  by (simp add: lengthV_def subV_def)

lemma densityAt_ge_self:
  assumes "0 < particleMass (params s)" "0 < smoothingRadius (params s)" "i < numParticles s"
  shows "particleMass (params s) * poly6Kernel 0 (smoothingRadius (params s)) \<le> densityAt s i"
proof -
  let ?contrib = "\<lambda>j. if lengthV (subV (positions s ! i) (positions s ! j)) < smoothingRadius (params s)
                        then particleMass (params s)
                             * poly6Kernel (lengthV (subV (positions s ! i) (positions s ! j)))
                                 (smoothingRadius (params s))
                        else 0"
  have nonneg: "0 \<le> ?contrib j" for j
    using assms(1) poly6_nonneg[OF assms(2)] by (simp add: mult_nonneg_nonneg less_imp_le)
  have "?contrib i \<in> ?contrib ` set [0..<numParticles s]"
    by (rule imageI) (use assms(3) in simp)
  then have "?contrib i \<in> set (map ?contrib [0..<numParticles s])"
    by simp
  moreover have "0 \<le> a" if "a \<in> set (map ?contrib [0..<numParticles s])" for a
  proof -
    from that have "a \<in> ?contrib ` set [0..<numParticles s]"
      by (simp only: set_map)
    then obtain j where "a = ?contrib j" by blast
    then show ?thesis using nonneg[of j] by (simp only:)
  qed
  ultimately have "?contrib i \<le> sum_list (map ?contrib [0..<numParticles s])"
    by (rule member_le_sum_list)
  then show ?thesis
    using assms(2) by (simp add: densityAt_sum lengthV_self)
qed


lemma densityAt_cong:
  "positions t = positions s \<Longrightarrow> params t = params s \<Longrightarrow> numParticles t = numParticles s
   \<Longrightarrow> densityAt t i = densityAt s i"
  by (simp add: densityAt_def)

lemma densityStep_keeps:
  "positions (densityStep k s) = positions s" "params (densityStep k s) = params s"
  "numParticles (densityStep k s) = numParticles s"
  "rigidBodies (densityStep k s) = rigidBodies s"
  "length (densities (densityStep k s)) = length (densities s)"
  by (simp_all add: densityStep_def Let_def)

lemma fold_densityStep_keeps:
  "positions (fold densityStep ks s) = positions s
   \<and> params (fold densityStep ks s) = params s
   \<and> numParticles (fold densityStep ks s) = numParticles s
   \<and> rigidBodies (fold densityStep ks s) = rigidBodies s
   \<and> length (densities (fold densityStep ks s)) = length (densities s)"
  by (induction ks arbitrary: s) (simp_all add: densityStep_keeps)

lemma fold_densityStep_value:
  "i \<in> set ks \<Longrightarrow> i < length (densities s)
   \<Longrightarrow> densities (fold densityStep ks s) ! i = densityAt s i"
proof (induction ks rule: rev_induct)
  case Nil
  then show ?case by simp
next
  case (snoc k ks)
  let ?t = "fold densityStep ks s"
  have keep: "positions ?t = positions s" "params ?t = params s"
    "numParticles ?t = numParticles s" "length (densities ?t) = length (densities s)"
    using fold_densityStep_keeps[of ks s] by simp_all
  show ?case
  proof (cases "k = i")
    case True
    have "densities (densityStep i ?t) ! i = densityAt ?t i"
      using snoc.prems(2) keep(4) by (simp add: densityStep_def Let_def)
    also have "\<dots> = densityAt s i"
      by (rule densityAt_cong[OF keep(1-3)])
    finally show ?thesis using True by simp
  next
    case False
    then have "i \<in> set ks" using snoc.prems(1) by simp
    then have "densities ?t ! i = densityAt s i"
      using snoc.prems(2) by (rule snoc.IH)
    moreover have "densities (densityStep k ?t) ! i = densities ?t ! i"
      using False by (simp add: densityStep_def Let_def)
    ultimately show ?thesis by simp
  qed
qed

lemma computeDensity_value:
  assumes "wellFormed s" "i < numParticles s"
  shows "densities (computeDensity s) ! i = densityAt s i"
  unfolding computeDensity_def
  by (rule fold_densityStep_value) (use assms in \<open>simp_all add: wellFormed_def\<close>)

lemma default_self_contribution:
  "particleMass defaultParams * poly6Kernel 0 (smoothingRadius defaultParams) = 315 / (8 * pi)"
proof -
  have "poly6Kernel 0 (1 / 2) = 315 / (64 * pi * (1 / 2) ^ 3)"
    by (rule poly6_self) simp
  then show ?thesis
    by (simp add: defaultParams_def power_numeral_reduce)
qed

lemma default_self_bounds: "9 < 315 / (8 * pi)" "315 / (8 * pi) < 20"
proof -
  have "pi < 4" by (rule pi_less_4)
  then show "9 < 315 / (8 * pi)" by (simp add: field_simps)
  have "2 \<le> pi" by (rule pi_ge_two)
  then show "315 / (8 * pi) < 20" by (simp add: field_simps)
qed

section \<open>No reverse coupling\<close>

text \<open>
  Claim C9. The coupling pass for a particle writes the position and velocity arrays
  only: the list of rigid bodies, with every field of every body, is the same after the
  pass as before, as are the densities, pressures, forces and parameters; the same
  holds for the list of bodies over the whole integration pass, which runs the coupling
  pass for every particle.
\<close>

theorem coupling_pass_is_one_way:
  "rigidBodies (handleRigidBodyCollisions i bodies s) = rigidBodies s
   \<and> sameButParticles s (handleRigidBodyCollisions i bodies s)
   \<and> rigidBodies (integrate dt bodies s) = rigidBodies s"
  using handleRigidBodyCollisions_frame[of s i bodies]
    fold_integrateParticle_frame[of s dt bodies "[0..<numParticles s]"]
  by (simp add: sameButParticles_def integrate_def)

section \<open>Density stays above the particle's own contribution\<close>

lemma fold_forceStep_keeps:
  "densities (fold forceStep ks s) = densities s"
  by (induction ks arbitrary: s) (simp_all add: forceStep_def)

lemma computeForces_densities: "densities (computeForces s) = densities s"
  by (simp add: computeForces_def fold_forceStep_keeps)

text \<open>
  Claim C10, amended. After the density pass with particle mass \<open>m > 0\<close> and smoothing
  radius \<open>h > 0\<close>, the density of every particle is at least its own contribution
  \<open>m * W(0, h) = m * 315 / (64 \<pi> h\<^sup>3)\<close> and hence positive. With the default parameters
  (\<open>m = 1\<close>, \<open>h = 0.5\<close>) that contribution is \<open>315 / (8 \<pi>)\<close>, between 9 and 20, and at no
  turn of the integration pass is the density of a particle below the floor 1.0.
\<close>

theorem density_at_least_self_contribution:
  assumes "wellFormed s" and "i < numParticles s"
    and "0 < particleMass (params s)" and "0 < smoothingRadius (params s)"
  shows "particleMass (params s) * poly6Kernel 0 (smoothingRadius (params s))
           \<le> densities (computeDensity s) ! i
       \<and> particleMass (params s) * poly6Kernel 0 (smoothingRadius (params s))
           = particleMass (params s) * (315 / (64 * pi * smoothingRadius (params s) ^ 3))
       \<and> 0 < densities (computeDensity s) ! i
       \<and> (params s = defaultParams \<longrightarrow>
            particleMass (params s) * poly6Kernel 0 (smoothingRadius (params s)) = 315 / (8 * pi)
          \<and> 9 < 315 / (8 * pi) \<and> 315 / (8 * pi) < 20
          \<and> (\<forall>js. \<not> densities (fold (integrateParticle dt bodies) js
                                 (computeForces (computeDensity s))) ! i < 1))"
proof -
  let ?self = "particleMass (params s) * poly6Kernel 0 (smoothingRadius (params s))"
  have ge: "?self \<le> densities (computeDensity s) ! i"
    using densityAt_ge_self[OF assms(3,4,2)] computeDensity_value[OF assms(1,2)] by simp
  have eq: "?self = particleMass (params s) * (315 / (64 * pi * smoothingRadius (params s) ^ 3))"
    using poly6_self[OF assms(4)] by simp
  have "0 < 315 / (64 * pi * smoothingRadius (params s) ^ 3)"
    using assms(4) by simp
  then have "0 < ?self"
    unfolding eq using assms(3) by (rule mult_pos_pos[rotated])
  with ge have pos: "0 < densities (computeDensity s) ! i" by simp
  have dflt: "?self = 315 / (8 * pi) \<and> 9 < 315 / (8 * pi) \<and> 315 / (8 * pi) < 20
              \<and> (\<forall>js. \<not> densities (fold (integrateParticle dt bodies) js
                                 (computeForces (computeDensity s))) ! i < 1)"
    if d: "params s = defaultParams"
  proof -
    have s: "?self = 315 / (8 * pi)"
      unfolding d by (rule default_self_contribution)
    have nine: "9 < densities (computeDensity s) ! i"
      using ge default_self_bounds(1) unfolding s by simp
    have "densities (fold (integrateParticle dt bodies) js (computeForces (computeDensity s)))
            = densities (computeDensity s)" for js
      using fold_integrateParticle_frame[of "computeForces (computeDensity s)" dt bodies js]
      by (simp add: sameButParticles_def computeForces_densities)
    with nine s default_self_bounds show ?thesis by simp
  qed
  from ge eq pos dflt show ?thesis by blast
qed

theorem density_at_least_self_contribution_witness:
  "wellFormed twoParticles \<and> 0 < numParticles twoParticles
   \<and> 0 < particleMass (params twoParticles) \<and> 0 < smoothingRadius (params twoParticles)
   \<and> params twoParticles = defaultParams
   \<and> 315 / (8 * pi) \<le> densities (computeDensity twoParticles) ! 0
   \<and> \<not> densities (computeForces (computeDensity twoParticles)) ! 0 < 1"
proof -
  have w: "wellFormed twoParticles" and n: "0 < numParticles twoParticles"
    and m: "0 < particleMass (params twoParticles)"
    and h: "0 < smoothingRadius (params twoParticles)"
    and d: "params twoParticles = defaultParams"
    by (simp_all add: twoParticles_def newSimulator_def wellFormed_def defaultParams_def)
  note t = density_at_least_self_contribution[OF w n m h, of "3 / 1000" "[]"]
  from t d have a: "315 / (8 * pi) \<le> densities (computeDensity twoParticles) ! 0"
    by simp
  from t d have "\<forall>js. \<not> densities (fold (integrateParticle (3 / 1000) []) js
                                 (computeForces (computeDensity twoParticles))) ! 0 < 1"
    by blast
  then have "\<not> densities (fold (integrateParticle (3 / 1000) []) []
                                 (computeForces (computeDensity twoParticles))) ! 0 < 1"
    by (rule spec)
  then have b: "\<not> densities (computeForces (computeDensity twoParticles)) ! 0 < 1"
    by simp
  from w n m h d a b show ?thesis by blast
qed

theorem self_contribution_far_from_802:
  "\<not> 800 \<le> particleMass defaultParams * poly6Kernel 0 (smoothingRadius defaultParams)"
  unfolding default_self_contribution using default_self_bounds(2) by simp

section \<open>The coupling pass, body by body\<close>

lemma particleBodyStep_other_tag:
  assumes "btype body \<noteq> ''sphere''" "btype body \<noteq> ''cylinder''" "btype body \<noteq> ''torus''"
    "btype body \<noteq> ''cube''"
  shows "particleBodyStep i p body s = s"
  using assms by (simp add: particleBodyStep_def Let_def)

lemma droppedBody_btype: "btype (droppedBody ty pos) = ty"
  by (simp add: droppedBody_def newRigidBody_def)

lemma skipped_tag:
  assumes "ty \<noteq> ''sphere''" "ty \<noteq> ''cylinder''" "ty \<noteq> ''torus''" "ty \<noteq> ''cube''"
  shows "handleRigidBodyCollisions i [droppedBody ty pos] s = s"
  using assms
  by (simp add: handleRigidBodyCollisions_def Let_def particleBodyStep_other_tag droppedBody_btype)

text \<open>
  Claim C2 at a failing input: a particle at \<open>(0.1, 0, 0)\<close> moving down sits inside a
  cone, a boat, a hollow sphere, a hollow cube and a hollow cylinder dropped at the
  origin, and the coupling pass returns the state unchanged for each of the five.
\<close>

theorem coupling_pass_skips_five_body_types:
  "handleRigidBodyCollisions 0 [droppedBody ''cone'' (vec3 0 0 0)]
     (particleAndBody (vec3 0.1 0 0) (vec3 0 (- 1) 0) (droppedBody ''cone'' (vec3 0 0 0)))
     = particleAndBody (vec3 0.1 0 0) (vec3 0 (- 1) 0) (droppedBody ''cone'' (vec3 0 0 0))
   \<and> handleRigidBodyCollisions 0 [droppedBody ''boat'' (vec3 0 0 0)]
     (particleAndBody (vec3 0.1 0 0) (vec3 0 (- 1) 0) (droppedBody ''boat'' (vec3 0 0 0)))
     = particleAndBody (vec3 0.1 0 0) (vec3 0 (- 1) 0) (droppedBody ''boat'' (vec3 0 0 0))
   \<and> handleRigidBodyCollisions 0 [droppedBody ''hollow-sphere'' (vec3 0 0 0)]
     (particleAndBody (vec3 0.1 0 0) (vec3 0 (- 1) 0) (droppedBody ''hollow-sphere'' (vec3 0 0 0)))
     = particleAndBody (vec3 0.1 0 0) (vec3 0 (- 1) 0) (droppedBody ''hollow-sphere'' (vec3 0 0 0))
   \<and> handleRigidBodyCollisions 0 [droppedBody ''hollow-cube'' (vec3 0 0 0)]
     (particleAndBody (vec3 0.1 0 0) (vec3 0 (- 1) 0) (droppedBody ''hollow-cube'' (vec3 0 0 0)))
     = particleAndBody (vec3 0.1 0 0) (vec3 0 (- 1) 0) (droppedBody ''hollow-cube'' (vec3 0 0 0))
   \<and> handleRigidBodyCollisions 0 [droppedBody ''hollow-cylinder'' (vec3 0 0 0)]
     (particleAndBody (vec3 0.1 0 0) (vec3 0 (- 1) 0) (droppedBody ''hollow-cylinder'' (vec3 0 0 0)))
     = particleAndBody (vec3 0.1 0 0) (vec3 0 (- 1) 0) (droppedBody ''hollow-cylinder'' (vec3 0 0 0))"
  by (simp add: skipped_tag)

section \<open>Two spheres meeting head-on\<close>

lemma axis_algebra:
  "subV (alongAxis ax a) (alongAxis ax b) = alongAxis ax (a - b)"
  "addV (alongAxis ax a) (alongAxis ax b) = alongAxis ax (a + b)"
  "multiplyScalar (alongAxis ax a) k = alongAxis ax (a * k)"
  "lengthV (alongAxis ax a) = \<bar>a\<bar>"
  "dotV (alongAxis ax a) (alongAxis ax b) = a * b"
  "crossVectors (alongAxis ax a) (alongAxis ax b) = vec3 0 0 0"
  by (cases ax; simp add: subV_def addV_def multiplyScalar_def lengthV_def dotV_def
        crossVectors_def vec3_def)+

lemma axis_normalize: "a \<noteq> 0 \<Longrightarrow> normalizeV (alongAxis ax a) = alongAxis ax (a / \<bar>a\<bar>)"
  by (simp add: normalizeV_def axis_algebra)

lemma axis_zero: "alongAxis ax 0 = vec3 0 0 0"
  by (cases ax) simp_all

lemma zero_vector_algebra:
  "multiplyScalar (vec3 0 0 0) k = vec3 0 0 0"
  "addV (vec3 0 0 0) (vec3 0 0 0) = vec3 0 0 0"
  "lengthV (vec3 0 0 0) = 0"
  by (simp_all add: multiplyScalar_def addV_def lengthV_def vec3_def)

lemma collidePair_self: "collidePair i i bs = bs"
  by (simp add: collidePair_def)

lemma collidePair_apart:
  assumes "collisionRadius (bs ! i) + collisionRadius (bs ! j)
             \<le> lengthV (subV (position (bs ! i)) (position (bs ! j)))"
  shows "collidePair i j bs = bs"
  using assms by (simp add: collidePair_def Let_def case_prod_beta)

lemma checkObjectCollisions_two:
  "checkObjectCollisions i [p, q] = collidePair i 1 (collidePair i 0 [p, q])"
proof -
  have "[0..<length [p, q]] = [0, 1]" by (simp add: upt_rec)
  then show ?thesis by (simp add: checkObjectCollisions_def)
qed

lemma collidePair_length: "length (collidePair i j bs) = length bs"
  by (simp add: collidePair_def Let_def case_prod_beta)

lemma headon_response:
  assumes vel: "velocity P1 = alongAxis ax u" "velocity Q1 = alongAxis ax (- u)"
    and ang: "angularVelocity P1 = vec3 0 0 0" "angularVelocity Q1 = vec3 0 0 0"
    and nu: "nu = 1 \<or> nu = - 1"
  shows "collisionResponse (alongAxis ax nu) (alongAxis ax (u + u)) ((u + u) * nu) P1 Q1
           = (P1\<lparr>velocity := alongAxis ax (- (2 / 5) * u), angularVelocity := vec3 0 0 0\<rparr>,
              Q1\<lparr>velocity := alongAxis ax (2 / 5 * u), angularVelocity := vec3 0 0 0\<rparr>)"
  using nu
  by (auto simp add: collisionResponse_def Let_def vel ang axis_algebra zero_vector_algebra)


lemma headon_resolveOverlap:
  assumes pos: "position P = alongAxis ax a" "position Q = alongAxis ax b"
    and vel: "velocity P = alongAxis ax u" "velocity Q = alongAxis ax (- u)"
    and ang: "angularVelocity P = vec3 0 0 0" "angularVelocity Q = vec3 0 0 0"
    and nu: "nu = 1 \<or> nu = - 1" and D: "0 < D" "a - b = nu * D" and toward: "0 \<le> - u * nu"
  shows "resolveOverlap (alongAxis ax (a - b)) D M P Q
           = (P\<lparr>position := alongAxis ax (a + nu * ((M - D) / 2)),
                velocity := alongAxis ax (- (2 / 5) * u), angularVelocity := vec3 0 0 0\<rparr>,
              Q\<lparr>position := alongAxis ax (b - nu * ((M - D) / 2)),
                velocity := alongAxis ax (2 / 5 * u), angularVelocity := vec3 0 0 0\<rparr>)"
proof -
  have n: "normalizeV (alongAxis ax (a - b)) = alongAxis ax nu"
    using nu D by (auto simp add: normalizeV_def axis_algebra)
  have ratio: "(if 0 < \<bar>u\<bar> + \<bar>- u\<bar> then \<bar>u\<bar> / (\<bar>u\<bar> + \<bar>- u\<bar>) else 5 / 10) = 1 / 2"
    by simp
  define P1 where "P1 = P\<lparr>position := alongAxis ax (a + nu * ((M - D) / 2))\<rparr>"
  define Q1 where "Q1 = Q\<lparr>position := alongAxis ax (b - nu * ((M - D) / 2))\<rparr>"
  have v1: "velocity P1 = alongAxis ax u" "velocity Q1 = alongAxis ax (- u)"
    and a1: "angularVelocity P1 = vec3 0 0 0" "angularVelocity Q1 = vec3 0 0 0"
    by (simp_all add: P1_def Q1_def vel ang)
  have moved: "P\<lparr>position := addV (position P)
                   (multiplyScalar (alongAxis ax nu) ((M - D) * (1 / 2)))\<rparr> = P1"
      "Q\<lparr>position := addV (position Q)
                   (multiplyScalar (alongAxis ax nu) (- (M - D) * (1 - 1 / 2)))\<rparr> = Q1"
  proof -
    have e: "b + nu * (D - M) / 2 = b - nu * (M - D) / 2"
      by (simp add: algebra_simps diff_divide_distrib)
    show "P\<lparr>position := addV (position P)
                   (multiplyScalar (alongAxis ax nu) ((M - D) * (1 / 2)))\<rparr> = P1"
      by (simp add: P1_def pos axis_algebra)
    show "Q\<lparr>position := addV (position Q)
                   (multiplyScalar (alongAxis ax nu) (- (M - D) * (1 - 1 / 2)))\<rparr> = Q1"
      by (simp add: Q1_def pos axis_algebra e)
  qed
  have moved': "P\<lparr>position := addV (position P) (alongAxis ax (nu * (M - D) / 2))\<rparr> = P1"
      "Q\<lparr>position := addV (position Q) (alongAxis ax (nu * (D - M) / 2))\<rparr> = Q1"
    using moved by (simp_all add: axis_algebra)
  have resp: "collisionResponse (alongAxis ax nu) (alongAxis ax (u + u)) ((u + u) * nu) P1 Q1
           = (P1\<lparr>velocity := alongAxis ax (- (2 / 5) * u), angularVelocity := vec3 0 0 0\<rparr>,
              Q1\<lparr>velocity := alongAxis ax (2 / 5 * u), angularVelocity := vec3 0 0 0\<rparr>)"
    using v1 a1 nu by (rule headon_response)
  have rest: "(P1, Q1)
           = (P1\<lparr>velocity := alongAxis ax (- (2 / 5) * u), angularVelocity := vec3 0 0 0\<rparr>,
              Q1\<lparr>velocity := alongAxis ax (2 / 5 * u), angularVelocity := vec3 0 0 0\<rparr>)"
    if "\<not> (u + u) * nu < 0"
  proof -
    have "u = 0" using that toward nu by auto
    then show ?thesis
      using v1 a1 by simp
  qed
  have "resolveOverlap (alongAxis ax (a - b)) D M P Q
          = (if (u + u) * nu < 0 \<or> M - D > 1 / 10
             then collisionResponse (alongAxis ax nu) (alongAxis ax (u + u)) ((u + u) * nu) P1 Q1
             else (P1, Q1))"
    unfolding resolveOverlap_def Let_def n vel axis_algebra ratio
    by (simp add: moved' v1 vel axis_algebra)
  also have "\<dots> = (P1\<lparr>velocity := alongAxis ax (- (2 / 5) * u), angularVelocity := vec3 0 0 0\<rparr>,
              Q1\<lparr>velocity := alongAxis ax (2 / 5 * u), angularVelocity := vec3 0 0 0\<rparr>)"
    using resp rest by auto
  finally show ?thesis by (simp add: P1_def Q1_def)
qed

lemma headon_collidePair:
  assumes tags: "btype P = ''sphere''" "btype Q = ''sphere''"
    and radius: "cx (bsize P) = R" "cx (bsize Q) = R"
    and pos: "position P = alongAxis ax a" "position Q = alongAxis ax b"
    and vel: "velocity P = alongAxis ax u" "velocity Q = alongAxis ax (- u)"
    and ang: "angularVelocity P = vec3 0 0 0" "angularVelocity Q = vec3 0 0 0"
    and nu: "nu = 1 \<or> nu = - 1" and D: "0 < D" "a - b = nu * D" and toward: "0 \<le> - u * nu"
    and far: "1 / 1000 \<le> D" and near: "D < R + R"
  shows "collidePair 0 1 [P, Q]
           = [P\<lparr>position := alongAxis ax (a + nu * ((R + R - D) / 2)),
                velocity := alongAxis ax (- (2 / 5) * u), angularVelocity := vec3 0 0 0\<rparr>,
              Q\<lparr>position := alongAxis ax (b - nu * ((R + R - D) / 2)),
                velocity := alongAxis ax (2 / 5 * u), angularVelocity := vec3 0 0 0\<rparr>]"
proof -
  have len: "lengthV (alongAxis ax (a - b)) = D"
    using nu D by (auto simp add: axis_algebra)
  have rad: "collisionRadius P = R" "collisionRadius Q = R"
    by (simp_all add: collisionRadius_def tags radius)
  show ?thesis
    using far near
    by (simp add: collidePair_def Let_def pos axis_algebra(1) len rad
        headon_resolveOverlap[OF pos vel ang nu D toward])
qed

lemma headon_settled:
  assumes tags: "btype P = ''sphere''" "btype Q = ''sphere''"
    and radius: "cx (bsize P) = R" "cx (bsize Q) = R"
    and pos: "position P = alongAxis ax a" "position Q = alongAxis ax b"
    and apart: "\<bar>a - b\<bar> = R + R"
  shows "collidePair 0 1 [P, Q] = [P, Q]" and "collidePair 1 0 [P, Q] = [P, Q]"
proof -
  have "\<bar>b - a\<bar> = R + R" using apart by simp
  with apart show "collidePair 0 1 [P, Q] = [P, Q]" and "collidePair 1 0 [P, Q] = [P, Q]"
    by (auto intro!: collidePair_apart
        simp: collisionRadius_def tags radius pos axis_algebra)
qed

lemma collisionPass_two:
  "collisionPass [p, q] = checkObjectCollisions 1 (checkObjectCollisions 0 [p, q])"
  by (simp add: collisionPass_def upt_rec)

lemma headon_settled_pass:
  assumes tags: "btype P = ''sphere''" "btype Q = ''sphere''"
    and radius: "cx (bsize P) = R" "cx (bsize Q) = R"
    and pos: "position P = alongAxis ax a" "position Q = alongAxis ax b"
    and apart: "\<bar>a - b\<bar> = R + R"
  shows "checkObjectCollisions 0 [P, Q] = [P, Q]"
    and "checkObjectCollisions 1 [P, Q] = [P, Q]"
    and "collisionPass [P, Q] = [P, Q]"
proof -
  note st = headon_settled[OF assms]
  show a: "checkObjectCollisions 0 [P, Q] = [P, Q]"
    by (simp only: checkObjectCollisions_two collidePair_self st)
  show b: "checkObjectCollisions 1 [P, Q] = [P, Q]"
    by (simp only: checkObjectCollisions_two collidePair_self st)
  show "collisionPass [P, Q] = [P, Q]"
    by (simp only: collisionPass_two a b)
qed

lemma headon_passes:
  assumes tags: "btype P = ''sphere''" "btype Q = ''sphere''"
    and radius: "cx (bsize P) = R" "cx (bsize Q) = R"
    and pos: "position P = alongAxis ax a" "position Q = alongAxis ax b"
    and vel: "velocity P = alongAxis ax u" "velocity Q = alongAxis ax (- u)"
    and ang: "angularVelocity P = vec3 0 0 0" "angularVelocity Q = vec3 0 0 0"
    and toward: "0 \<le> u * (b - a)"
    and far: "1 / 1000 \<le> \<bar>a - b\<bar>" and near: "\<bar>a - b\<bar> < R + R"
  shows "\<exists>P' Q'. checkObjectCollisions 0 [P, Q] = [P', Q'] \<and> collisionPasses [P, Q] = [P', Q']
           \<and> velocity P' = alongAxis ax (- (2 / 5) * u)
           \<and> velocity Q' = alongAxis ax (2 / 5 * u)"
proof -
  define nu :: real where "nu = (if a < b then - 1 else 1)"
  define D where "D = \<bar>a - b\<bar>"
  have ne: "a \<noteq> b" using far by auto
  have nu: "nu = 1 \<or> nu = - 1" by (simp add: nu_def)
  have D: "0 < D" "a - b = nu * D" using ne by (auto simp add: D_def nu_def)
  have tw: "0 \<le> - u * nu"
  proof (cases "a < b")
    case True
    then have "0 < b - a" by simp
    with toward have "0 \<le> u" by (simp add: zero_le_mult_iff)
    with True show ?thesis by (simp add: nu_def)
  next
    case False
    then have "b - a < 0" using ne by simp
    with toward have "u \<le> 0" by (simp add: zero_le_mult_iff)
    with False show ?thesis by (simp add: nu_def)
  qed
  define P' where "P' = P\<lparr>position := alongAxis ax (a + nu * ((R + R - D) / 2)),
                velocity := alongAxis ax (- (2 / 5) * u), angularVelocity := vec3 0 0 0\<rparr>"
  define Q' where "Q' = Q\<lparr>position := alongAxis ax (b - nu * ((R + R - D) / 2)),
                velocity := alongAxis ax (2 / 5 * u), angularVelocity := vec3 0 0 0\<rparr>"
  have hit: "collidePair 0 1 [P, Q] = [P', Q']"
    unfolding P'_def Q'_def
    using tags radius pos vel ang nu D tw far[folded D_def] near[folded D_def]
    by (rule headon_collidePair)
  have first: "checkObjectCollisions 0 [P, Q] = [P', Q']"
    by (simp only: checkObjectCollisions_two collidePair_self hit)
  have tags': "btype P' = ''sphere''" "btype Q' = ''sphere''"
    and radius': "cx (bsize P') = R" "cx (bsize Q') = R"
    and pos': "position P' = alongAxis ax (a + nu * ((R + R - D) / 2))"
      "position Q' = alongAxis ax (b - nu * ((R + R - D) / 2))"
    by (simp_all add: P'_def Q'_def tags radius)
  have "a + nu * ((R + R - D) / 2) - (b - nu * ((R + R - D) / 2)) = nu * (R + R)"
    using D(2) by (simp add: algebra_simps)
  moreover have "0 < R + R" using D(1) near[folded D_def] by simp
  ultimately have apart: "\<bar>a + nu * ((R + R - D) / 2) - (b - nu * ((R + R - D) / 2))\<bar> = R + R"
    using nu by auto
  note settled = headon_settled_pass[OF tags' radius' pos' apart]
  have "collisionPass [P, Q] = [P', Q']"
    by (simp only: collisionPass_two first settled)
  then have "collisionPasses [P, Q] = [P', Q']"
    by (simp only: collisionPasses_def settled)
  with first show ?thesis
    by (intro exI[of _ P'] exI[of _ Q']) (simp add: P'_def Q'_def)
qed

text \<open>
  Claim C5, amended. Two spheres of equal radius and density on one coordinate axis,
  their centres at least 0.001 apart and closer than the sum of the radii, move towards
  each other along that axis with velocities \<open>u\<close> and \<open>-u\<close> and do not spin. After the
  first body's collision check, and after the three collision passes of the frame,
  their velocities are \<open>-0.4 u\<close> and \<open>0.4 u\<close> along the axis: opposite, each of
  magnitude 0.4 times the approach speed.
\<close>

theorem head_on_spheres_rebound:
  assumes "btype P = ''sphere''" and "btype Q = ''sphere''"
    and "cx (bsize P) = R" and "cx (bsize Q) = R"
    and "density P = density Q"
    and "position P = alongAxis ax a" and "position Q = alongAxis ax b"
    and "velocity P = alongAxis ax u" and "velocity Q = alongAxis ax (- u)"
    and "angularVelocity P = vec3 0 0 0" and "angularVelocity Q = vec3 0 0 0"
    and "0 \<le> u * (b - a)"
    and "0.001 \<le> \<bar>a - b\<bar>" and "\<bar>a - b\<bar> < R + R"
  shows "velocity (checkObjectCollisions 0 [P, Q] ! 0) = alongAxis ax (- 0.4 * u)
       \<and> velocity (checkObjectCollisions 0 [P, Q] ! 1) = alongAxis ax (0.4 * u)
       \<and> velocity (collisionPasses [P, Q] ! 0) = alongAxis ax (- 0.4 * u)
       \<and> velocity (collisionPasses [P, Q] ! 1) = alongAxis ax (0.4 * u)
       \<and> lengthV (velocity (collisionPasses [P, Q] ! 0)) = 0.4 * \<bar>u\<bar>
       \<and> lengthV (velocity (collisionPasses [P, Q] ! 1)) = 0.4 * \<bar>u\<bar>"
proof -
  have far: "1 / 1000 \<le> \<bar>a - b\<bar>" using assms(13) by simp
  from headon_passes[OF assms(1-4) assms(6-12) far assms(14)]
  obtain P' Q' where r: "checkObjectCollisions 0 [P, Q] = [P', Q']"
    "collisionPasses [P, Q] = [P', Q']"
    "velocity P' = alongAxis ax (- (2 / 5) * u)" "velocity Q' = alongAxis ax (2 / 5 * u)"
    by blast
  show ?thesis
    unfolding r by (simp add: r axis_algebra abs_mult)
qed

lemma sphereAt_facts:
  "btype (sphereAt a u) = ''sphere''" "cx (bsize (sphereAt a u)) = 0.8"
  "density (sphereAt a u) = 2700"
  "position (sphereAt a u) = alongAxis AxisX a" "velocity (sphereAt a u) = alongAxis AxisX u"
  "angularVelocity (sphereAt a u) = vec3 0 0 0"
  by (simp_all add: sphereAt_def droppedBody_def dropSize_def newRigidBody_def
      multiplyScalar_def vec3_def)

theorem head_on_spheres_rebound_witness:
  "velocity (collisionPasses [sphereAt 0 1, sphereAt 1 (- 1)] ! 0) = alongAxis AxisX (- 0.4 * 1)
   \<and> velocity (collisionPasses [sphereAt 0 1, sphereAt 1 (- 1)] ! 1) = alongAxis AxisX (0.4 * 1)
   \<and> lengthV (velocity (collisionPasses [sphereAt 0 1, sphereAt 1 (- 1)] ! 0)) = 0.4 * \<bar>1\<bar>"
proof -
  have d: "density (sphereAt 0 1) = density (sphereAt 1 (- 1))"
    by (simp add: sphereAt_facts)
  have t: "(0::real) \<le> 1 * (1 - 0)" and f: "(0.001::real) \<le> \<bar>0 - 1\<bar>"
    and n: "\<bar>0 - 1\<bar> < (0.8::real) + 0.8"
    by simp_all
  from head_on_spheres_rebound[OF sphereAt_facts(1) sphereAt_facts(1) sphereAt_facts(2)
      sphereAt_facts(2) d sphereAt_facts(4) sphereAt_facts(4) sphereAt_facts(5)
      sphereAt_facts(5)[of 1 "- 1"] sphereAt_facts(6) sphereAt_facts(6) t f n]
  show ?thesis by blast
qed

lemma collidePair_close:
  assumes "lengthV (subV (position (bs ! i)) (position (bs ! j))) < 0.001"
  shows "collidePair i j bs = bs"
  using assms by (simp add: collidePair_def Let_def)

theorem nearly_concentric_spheres_keep_velocity:
  "lengthV (velocity (collisionPasses [sphereAt 0 1, sphereAt 0.0005 (- 1)] ! 0)) \<noteq> 0.4 * 1"
proof -
  let ?P = "sphereAt 0 1" and ?Q = "sphereAt 0.0005 (- 1)"
  have "lengthV (subV (position ?P) (position ?Q)) = \<bar>0 - 0.0005\<bar>"
    "lengthV (subV (position ?Q) (position ?P)) = \<bar>0.0005 - 0\<bar>"
    by (simp_all only: sphereAt_facts axis_algebra)
  then have "lengthV (subV (position ?P) (position ?Q)) < 0.001"
    "lengthV (subV (position ?Q) (position ?P)) < 0.001"
    by simp_all
  then have c: "collidePair 0 1 [?P, ?Q] = [?P, ?Q]" "collidePair 1 0 [?P, ?Q] = [?P, ?Q]"
    by (auto intro!: collidePair_close)
  have a: "checkObjectCollisions 0 [?P, ?Q] = [?P, ?Q]"
    by (simp only: checkObjectCollisions_two collidePair_self c)
  have b: "checkObjectCollisions 1 [?P, ?Q] = [?P, ?Q]"
    by (simp only: checkObjectCollisions_two collidePair_self c)
  have "collisionPass [?P, ?Q] = [?P, ?Q]"
    by (simp only: collisionPass_two a b)
  then have "collisionPasses [?P, ?Q] = [?P, ?Q]"
    by (simp only: collisionPasses_def)
  then have "lengthV (velocity (collisionPasses [?P, ?Q] ! 0)) = \<bar>1\<bar>"
    by (simp only: nth_Cons_0 sphereAt_facts axis_algebra)
  then show ?thesis by simp
qed

section \<open>A body against the walls\<close>

lemma radialForWalls_iff: "radialForWalls t \<longleftrightarrow> roundFamily t \<or> cylinderFamily t"
  by (auto simp add: radialForWalls_def roundFamily_def cylinderFamily_def)

lemma floorImpact_keeps:
  "position (floorImpact t f b) = position b"
  "btype (floorImpact t f b) = btype b"
  "bsize (floorImpact t f b) = bsize b"
  by (simp_all add: floorImpact_def Let_def)

lemma bottomRound_facts:
  "cx (position (bottomRound bMin b)) = cx (position b)"
  "cz (position (bottomRound bMin b)) = cz (position b)"
  "btype (bottomRound bMin b) = btype b"
  "bsize (bottomRound bMin b) = bsize b"
  "cy bMin + cx (bsize b) \<le> cy (position (bottomRound bMin b))"
  by (simp_all add: bottomRound_def Let_def floorImpact_keeps)

lemma bottomCylinder_facts:
  "cx (position (bottomCylinder bMin b)) = cx (position b)"
  "cz (position (bottomCylinder bMin b)) = cz (position b)"
  "btype (bottomCylinder bMin b) = btype b"
  "bsize (bottomCylinder bMin b) = bsize b"
  "cy bMin + cx (bsize b) \<le> cy (position (bottomCylinder bMin b))"
  by (simp_all add: bottomCylinder_def Let_def floorImpact_keeps)

lemma bottomBox_facts:
  "cx (position (bottomBox applyEuler bMin eff b)) = cx (position b)"
  "cz (position (bottomBox applyEuler bMin eff b)) = cz (position b)"
  "btype (bottomBox applyEuler bMin eff b) = btype b"
  "bsize (bottomBox applyEuler bMin eff b) = bsize b"
  "cy bMin + cy eff \<le> cy (position (bottomBox applyEuler bMin eff b))"
  by (simp_all add: bottomBox_def Let_def floorImpact_keeps)


lemma bottomWall_facts:
  "cx (position (bottomWall applyEuler bMin eff b)) = cx (position b)"
  "cz (position (bottomWall applyEuler bMin eff b)) = cz (position b)"
  "btype (bottomWall applyEuler bMin eff b) = btype b"
  "bsize (bottomWall applyEuler bMin eff b) = bsize b"
  "cy bMin + (if radialForWalls (btype b) then cx (bsize b) else cy eff)
     \<le> cy (position (bottomWall applyEuler bMin eff b))"
  by (simp_all add: bottomWall_def radialForWalls_iff bottomRound_facts bottomCylinder_facts
      bottomBox_facts)

lemma topWall_facts:
  "cx (position (topWall bMax eff b)) = cx (position b)"
  "cz (position (topWall bMax eff b)) = cz (position b)"
  "btype (topWall bMax eff b) = btype b"
  "bsize (topWall bMax eff b) = bsize b"
  "cy (position (topWall bMax eff b))
     \<le> cy bMax - (if radialForWalls (btype b) then cx (bsize b) else cy eff)"
  "lo \<le> cy (position b) \<Longrightarrow>
   lo \<le> cy bMax - (if radialForWalls (btype b) then cx (bsize b) else cy eff) \<Longrightarrow>
   lo \<le> cy (position (topWall bMax eff b))"
  by (simp_all add: topWall_def Let_def)

lemma sidesX_facts:
  "cy (position (sidesX bMin bMax eff b)) = cy (position b)"
  "cz (position (sidesX bMin bMax eff b)) = cz (position b)"
  "btype (sidesX bMin bMax eff b) = btype b"
  "bsize (sidesX bMin bMax eff b) = bsize b"
  "0 \<le> (if radialForWalls (btype b) then cx (bsize b) else cx eff) \<Longrightarrow>
   (if radialForWalls (btype b) then cx (bsize b) else cx eff) \<le> cx bMax - cx bMin \<Longrightarrow>
   cx bMin \<le> cx (position (sidesX bMin bMax eff b))
   \<and> cx (position (sidesX bMin bMax eff b)) \<le> cx bMax"
  by (simp_all add: sidesX_def Let_def)

lemma sidesZ_facts:
  "cx (position (sidesZ bMin bMax eff b)) = cx (position b)"
  "cy (position (sidesZ bMin bMax eff b)) = cy (position b)"
  "0 \<le> (if radialForWalls (btype b) then cx (bsize b) else cz eff) \<Longrightarrow>
   (if radialForWalls (btype b) then cx (bsize b) else cz eff) \<le> cz bMax - cz bMin \<Longrightarrow>
   cz bMin \<le> cz (position (sidesZ bMin bMax eff b))
   \<and> cz (position (sidesZ bMin bMax eff b)) \<le> cz bMax"
  by (simp_all add: sidesZ_def Let_def)

lemma wallRadius_components:
  "cx (wallRadius applyEuler b)
     = (if radialForWalls (btype b) then cx (bsize b) else cx (effectiveRadius applyEuler b))"
  "cy (wallRadius applyEuler b)
     = (if radialForWalls (btype b) then cx (bsize b) else cy (effectiveRadius applyEuler b))"
  "cz (wallRadius applyEuler b)
     = (if radialForWalls (btype b) then cx (bsize b) else cz (effectiveRadius applyEuler b))"
  by (simp_all add: wallRadius_def vec3_def)

lemma boundaryCollisions_within:
  assumes "fitsDomain applyEuler bMin bMax b"
  shows "withinBounds bMin bMax (position (boundaryCollisions applyEuler bMin bMax b))"
proof -
  define eff where "eff = effectiveRadius applyEuler b"
  define b1 where "b1 = bottomWall applyEuler bMin eff b"
  define b2 where "b2 = topWall bMax eff b1"
  define b3 where "b3 = sidesX bMin bMax eff b2"
  define b4 where "b4 = sidesZ bMin bMax eff b3"
  define rx where "rx = (if radialForWalls (btype b) then cx (bsize b) else cx eff)"
  define ry where "ry = (if radialForWalls (btype b) then cx (bsize b) else cy eff)"
  define rz where "rz = (if radialForWalls (btype b) then cx (bsize b) else cz eff)"
  have fit: "0 \<le> rx" "rx \<le> cx bMax - cx bMin" "0 \<le> ry" "ry \<le> cy bMax - cy bMin"
    "0 \<le> rz" "rz \<le> cz bMax - cz bMin"
    using assms
    unfolding fitsDomain_def Let_def wallRadius_components rx_def ry_def rz_def eff_def
    by blast+
  have t1: "btype b1 = btype b" "bsize b1 = bsize b"
    by (simp_all add: b1_def bottomWall_facts)
  have t2: "btype b2 = btype b" "bsize b2 = bsize b"
    by (simp_all add: b2_def topWall_facts t1)
  have t3: "btype b3 = btype b" "bsize b3 = bsize b"
    by (simp_all add: b3_def sidesX_facts t2)
  have y1: "cy bMin + ry \<le> cy (position b1)"
    unfolding b1_def ry_def by (rule bottomWall_facts(5))
  have y2hi: "cy (position b2) \<le> cy bMax - ry"
    using topWall_facts(5)[where b = b1 and bMax = bMax and eff = eff,
        unfolded t1, folded ry_def b2_def]
    by simp
  have y2lo: "cy bMin \<le> cy (position b2)"
    using topWall_facts(6)[where lo = "cy bMin" and b = b1 and bMax = bMax and eff = eff,
        unfolded t1, folded ry_def b2_def] y1 fit
    by simp
  have y4: "cy (position b4) = cy (position b2)"
    by (simp add: b4_def b3_def sidesZ_facts sidesX_facts)
  have x3: "cx bMin \<le> cx (position b3) \<and> cx (position b3) \<le> cx bMax"
    using sidesX_facts(5)[where b = b2 and bMin = bMin and bMax = bMax and eff = eff,
        unfolded t2, folded rx_def b3_def] fit
    by simp
  have x4: "cx (position b4) = cx (position b3)"
    by (simp add: b4_def sidesZ_facts)
  have z4: "cz bMin \<le> cz (position b4) \<and> cz (position b4) \<le> cz bMax"
    using sidesZ_facts(3)[where b = b3 and bMin = bMin and bMax = bMax and eff = eff,
        unfolded t3, folded rz_def b4_def] fit
    by simp
  have "boundaryCollisions applyEuler bMin bMax b = b4"
    by (simp add: boundaryCollisions_def Let_def b4_def b3_def b2_def b1_def eff_def)
  then show ?thesis
    using x3 x4 y2hi y2lo y4 z4 fit by (simp add: withinBounds_def)
qed

lemma boundaryResponse_within:
  assumes "orderedBox (boundMin prm) (boundMax prm)"
  shows "withinBounds (boundMin prm) (boundMax prm) (fst (boundaryResponse prm (p, v)))"
  using assms
  by (simp add: boundaryResponse_def Let_def withinBounds_def orderedBox_def)

lemma handleBoundaryCollision_position:
  assumes "i < length (positions s)"
  shows "positions (handleBoundaryCollision i s) ! i
           = fst (boundaryResponse (params s) (positions s ! i, velocities s ! i))"
  using assms by (simp add: handleBoundaryCollision_def case_prod_beta)

lemma checkObjectCollisions_length: "length (checkObjectCollisions i bs) = length bs"
proof -
  have "length (fold (collidePair i) js bs) = length bs" for js
    by (induction js arbitrary: bs) (simp_all add: collidePair_length)
  then show ?thesis by (simp add: checkObjectCollisions_def)
qed

lemma beforeBoundary_length: "length (beforeBoundary k dt g rho bs) = length bs"
  by (simp add: beforeBoundary_def Let_def checkObjectCollisions_length)

lemma update_at:
  assumes "k < length bs"
  shows "update applyEuler k dt g bMin bMax dmp rho bs ! k
           = boundaryCollisions applyEuler bMin bMax (beforeBoundary k dt g rho bs ! k)"
  using assms by (simp add: update_def Let_def beforeBoundary_length)


text \<open>
  Claim C1, amended. For a domain box whose corners are in order, the position of a
  particle lies within the box right after its boundary pass. For a rigid body, the
  position lies within the box right after the boundary handling of its per-step
  update, provided the radius that handling uses on each axis (the radius of a round
  body, the effective radius of a box) is non-negative and no larger than the extent of
  the box on that axis.
\<close>

theorem no_escape_after_boundary_handling:
  "(orderedBox (boundMin (params s)) (boundMax (params s)) \<and> i < length (positions s) \<longrightarrow>
      withinBounds (boundMin (params s)) (boundMax (params s))
        (positions (handleBoundaryCollision i s) ! i))
   \<and> (fitsDomain applyEuler bMin bMax b \<longrightarrow>
      withinBounds bMin bMax (position (boundaryCollisions applyEuler bMin bMax b)))
   \<and> (k < length bs
        \<and> fitsDomain applyEuler bMin bMax (beforeBoundary k dt gravity fluidDensity bs ! k) \<longrightarrow>
      withinBounds bMin bMax
        (position (update applyEuler k dt gravity bMin bMax dmp fluidDensity bs ! k)))"
  using boundaryResponse_within[of "params s" "positions s ! i" "velocities s ! i"]
    handleBoundaryCollision_position[of i s]
    boundaryCollisions_within[of applyEuler bMin bMax b]
    boundaryCollisions_within[of applyEuler bMin bMax
      "beforeBoundary k dt gravity fluidDensity bs ! k"]
    update_at[of k bs applyEuler dt gravity bMin bMax dmp fluidDensity]
  by simp

lemma checkObjectCollisions_single: "checkObjectCollisions 0 [b] = [b]"
  by (simp add: checkObjectCollisions_def collidePair_self)

lemma beforeBoundary_single:
  "beforeBoundary 0 dt g rho [b]
     = [spin dt (movePosition dt (applyDrag dt rho (applyEffectiveGravity dt g rho b)))]"
  by (simp add: beforeBoundary_def Let_def checkObjectCollisions_single)

lemma dynamics_keep_shape:
  "btype (spin dt b) = btype b" "bsize (spin dt b) = bsize b"
  "btype (movePosition dt b) = btype b" "bsize (movePosition dt b) = bsize b"
  "btype (applyDrag dt rho b) = btype b" "bsize (applyDrag dt rho b) = bsize b"
  "btype (applyEffectiveGravity dt g rho b) = btype b"
  "bsize (applyEffectiveGravity dt g rho b) = bsize b"
  by (simp_all add: spin_def movePosition_def applyDrag_def applyEffectiveGravity_def Let_def)

lemma fitsDomain_round:
  assumes "radialForWalls (btype b)"
  shows "fitsDomain applyEuler bMin bMax b \<longleftrightarrow>
           0 \<le> cx (bsize b) \<and> cx (bsize b) \<le> cx bMax - cx bMin
           \<and> cx (bsize b) \<le> cy bMax - cy bMin \<and> cx (bsize b) \<le> cz bMax - cz bMin"
  using assms by (auto simp add: fitsDomain_def Let_def wallRadius_components)

theorem no_escape_after_boundary_handling_witness:
  "withinBounds (boundMin defaultParams) (boundMax defaultParams)
     (positions (handleBoundaryCollision 0
        (particleAndBody (vec3 9 (- 6) 0) (vec3 1 (- 1) 0) (sphereAt 0 1))) ! 0)
   \<and> withinBounds (boundMin defaultParams) (boundMax defaultParams)
     (position (update keepCorner 0 0.003 (- 9.8) (boundMin defaultParams)
        (boundMax defaultParams) 0.6 1000 [sphereAt 7.5 1] ! 0))
   \<and> withinBounds (boundMin defaultParams) (boundMax defaultParams)
     (position (boundaryCollisions keepCorner (boundMin defaultParams)
        (boundMax defaultParams) (sphereAt 9 1)))"
proof -
  have round3: "radialForWalls (btype (sphereAt 9 1))"
    by (simp add: sphereAt_facts radialForWalls_def)
  have h3: "fitsDomain keepCorner (boundMin defaultParams) (boundMax defaultParams)
              (sphereAt 9 1)"
    unfolding fitsDomain_round[OF round3]
    by (simp add: sphereAt_facts defaultParams_def vec3_def)
  let ?s = "particleAndBody (vec3 9 (- 6) 0) (vec3 1 (- 1) 0) (sphereAt 0 1)"
  have p: "params ?s = defaultParams"
    by (simp add: particleAndBody_def newSimulator_def)
  have h1: "orderedBox (boundMin (params ?s)) (boundMax (params ?s)) \<and> 0 < length (positions ?s)"
    by (simp add: particleAndBody_def newSimulator_def defaultParams_def orderedBox_def vec3_def)
  have round: "radialForWalls (btype (beforeBoundary 0 0.003 (- 9.8) 1000 [sphereAt 7.5 1] ! 0))"
    by (simp add: beforeBoundary_single dynamics_keep_shape sphereAt_facts radialForWalls_def)
  have h2: "0 < length [sphereAt 7.5 1]
      \<and> fitsDomain keepCorner (boundMin defaultParams) (boundMax defaultParams)
          (beforeBoundary 0 0.003 (- 9.8) 1000 [sphereAt 7.5 1] ! 0)"
    unfolding fitsDomain_round[OF round]
    by (simp add: beforeBoundary_single dynamics_keep_shape sphereAt_facts defaultParams_def
        vec3_def)
  from no_escape_after_boundary_handling[of ?s 0 keepCorner "boundMin defaultParams"
      "boundMax defaultParams" "sphereAt 9 1" 0 "[sphereAt 7.5 1]" "0.003" "- 9.8" 1000 "0.6"]
    h1 h2 h3
  show ?thesis unfolding p by blast
qed

lemma sidesX_oversized:
  assumes "radialForWalls (btype b)" "cx bMax - cx bMin < cx (bsize b)" "cx bMin \<le> cx bMax"
  shows "cx (position (sidesX bMin bMax eff b)) < cx bMin"
  using assms by (simp add: sidesX_def Let_def)

lemma boundaryCollisions_oversized:
  assumes "radialForWalls (btype b)" "cx bMax - cx bMin < cx (bsize b)" "cx bMin \<le> cx bMax"
  shows "cx (position (boundaryCollisions applyEuler bMin bMax b)) < cx bMin"
proof -
  define eff where "eff = effectiveRadius applyEuler b"
  define b2 where "b2 = topWall bMax eff (bottomWall applyEuler bMin eff b)"
  have "radialForWalls (btype b2)" "cx bMax - cx bMin < cx (bsize b2)"
    using assms by (simp_all add: b2_def topWall_facts bottomWall_facts)
  then have "cx (position (sidesX bMin bMax eff b2)) < cx bMin"
    using assms(3) by (rule sidesX_oversized)
  then show ?thesis
    by (simp add: boundaryCollisions_def Let_def sidesZ_facts eff_def b2_def)
qed

theorem oversized_sphere_leaves_domain:
  "\<not> withinBounds (boundMin defaultParams) (boundMax defaultParams)
     (position (update keepCorner 0 0.003 (- 9.8) (boundMin defaultParams)
        (boundMax defaultParams) 0.6 1000
        [newRigidBody ''sphere'' (vec3 0 10 0) (dropSize ''sphere'') 25 0 0 0 2700] ! 0))"
proof -
  let ?b = "newRigidBody ''sphere'' (vec3 0 10 0) (dropSize ''sphere'') 25 0 0 0 2700"
  let ?m = "beforeBoundary 0 0.003 (- 9.8) 1000 [?b] ! 0"
  have shape: "btype ?m = ''sphere''" "cx (bsize ?m) = 20"
    by (simp_all add: beforeBoundary_single dynamics_keep_shape newRigidBody_def dropSize_def
        multiplyScalar_def vec3_def)
  have r: "radialForWalls (btype ?m)"
    unfolding shape(1) by (simp add: radialForWalls_def)
  have o: "cx (boundMax defaultParams) - cx (boundMin defaultParams) < cx (bsize ?m)"
    unfolding shape(2) by (simp add: defaultParams_def vec3_def)
  have ord: "cx (boundMin defaultParams) \<le> cx (boundMax defaultParams)"
    by (simp add: defaultParams_def vec3_def)
  have "cx (position (boundaryCollisions keepCorner (boundMin defaultParams)
           (boundMax defaultParams) ?m)) < cx (boundMin defaultParams)"
    using r o ord by (rule boundaryCollisions_oversized)
  moreover have "update keepCorner 0 0.003 (- 9.8) (boundMin defaultParams)
        (boundMax defaultParams) 0.6 1000 [?b] ! 0
      = boundaryCollisions keepCorner (boundMin defaultParams) (boundMax defaultParams) ?m"
    by (rule update_at) simp
  ultimately show ?thesis
    by (simp only: withinBounds_def) linarith
qed

section \<open>Buoyancy and drag\<close>

lemma clear_bottomWall:
  assumes "cy bMin \<le> cy (position b)
             - (if radialForWalls (btype b) then cx (bsize b) else cy eff)"
  shows "bottomWall applyEuler bMin eff b = b"
proof (cases "radialForWalls (btype b)")
  case True
  then show ?thesis
    using assms
    by (auto simp add: bottomWall_def radialForWalls_iff bottomRound_def bottomCylinder_def
        Let_def)
next
  case False
  then show ?thesis
    using assms
    by (simp add: bottomWall_def radialForWalls_iff bottomBox_def)
qed

lemma clear_topWall:
  assumes "cy (position b) + (if radialForWalls (btype b) then cx (bsize b) else cy eff)
             \<le> cy bMax"
  shows "topWall bMax eff b = b"
  using assms by (simp add: topWall_def Let_def)

lemma clear_sidesX:
  assumes "cx bMin \<le> cx (position b) - (if radialForWalls (btype b) then cx (bsize b) else cx eff)"
    and "cx (position b) + (if radialForWalls (btype b) then cx (bsize b) else cx eff) \<le> cx bMax"
  shows "sidesX bMin bMax eff b = b"
  using assms by (simp add: sidesX_def Let_def)

lemma clear_sidesZ:
  assumes "cz bMin \<le> cz (position b) - (if radialForWalls (btype b) then cx (bsize b) else cz eff)"
    and "cz (position b) + (if radialForWalls (btype b) then cx (bsize b) else cz eff) \<le> cz bMax"
  shows "sidesZ bMin bMax eff b = b"
  using assms by (simp add: sidesZ_def Let_def)

lemma clear_boundaryCollisions:
  assumes "clearOfWalls applyEuler bMin bMax b"
  shows "boundaryCollisions applyEuler bMin bMax b = b"
proof -
  define eff where "eff = effectiveRadius applyEuler b"
  have c: "cx bMin \<le> cx (position b) - (if radialForWalls (btype b) then cx (bsize b) else cx eff)"
    "cx (position b) + (if radialForWalls (btype b) then cx (bsize b) else cx eff) \<le> cx bMax"
    "cy bMin \<le> cy (position b) - (if radialForWalls (btype b) then cx (bsize b) else cy eff)"
    "cy (position b) + (if radialForWalls (btype b) then cx (bsize b) else cy eff) \<le> cy bMax"
    "cz bMin \<le> cz (position b) - (if radialForWalls (btype b) then cx (bsize b) else cz eff)"
    "cz (position b) + (if radialForWalls (btype b) then cx (bsize b) else cz eff) \<le> cz bMax"
    using assms
    unfolding clearOfWalls_def Let_def wallRadius_components eff_def
    by blast+
  have "boundaryCollisions applyEuler bMin bMax b
          = sidesZ bMin bMax eff (sidesX bMin bMax eff (topWall bMax eff
              (bottomWall applyEuler bMin eff b)))"
    by (simp add: boundaryCollisions_def Let_def eff_def)
  also have "\<dots> = b"
    by (simp only: clear_bottomWall[OF c(3)] clear_topWall[OF c(4)] clear_sidesX[OF c(1,2)]
        clear_sidesZ[OF c(5,6)])
  finally show ?thesis .
qed

lemma dynamics_velocity:
  "velocity (spin dt b) = velocity b"
  "velocity (movePosition dt b) = velocity b"
  "velocity (applyDrag dt rho b)
     = multiplyScalar (velocity b) (1 - 0.01 * min (rho / 1000) 2 * dt * 60)"
  "velocity (applyEffectiveGravity dt g rho b)
     = (velocity b)\<lparr>cy := cy (velocity b) + g * (1 - 0.8 * (rho / density b)) * dt\<rparr>"
  by (simp_all add: spin_def movePosition_def applyDrag_def applyEffectiveGravity_def Let_def
      ac_simps)

lemma free_body_velocity:
  assumes "clearOfWalls applyEuler bMin bMax (beforeBoundary 0 dt g rho [b] ! 0)"
  shows "velocity (update applyEuler 0 dt g bMin bMax dmp rho [b] ! 0)
           = multiplyScalar
               ((velocity b)\<lparr>cy := cy (velocity b) + g * (1 - 0.8 * (rho / density b)) * dt\<rparr>)
               (1 - 0.01 * min (rho / 1000) 2 * dt * 60)"
proof -
  have "update applyEuler 0 dt g bMin bMax dmp rho [b] ! 0
          = boundaryCollisions applyEuler bMin bMax (beforeBoundary 0 dt g rho [b] ! 0)"
    by (rule update_at) simp
  also have "\<dots> = beforeBoundary 0 dt g rho [b] ! 0"
    using assms by (rule clear_boundaryCollisions)
  finally show ?thesis
    by (simp only: beforeBoundary_single nth_Cons_0 dynamics_velocity)
qed

lemma clearOfWalls_round:
  assumes "radialForWalls (btype b)"
  shows "clearOfWalls applyEuler bMin bMax b \<longleftrightarrow>
           cx bMin \<le> cx (position b) - cx (bsize b) \<and> cx (position b) + cx (bsize b) \<le> cx bMax
         \<and> cy bMin \<le> cy (position b) - cx (bsize b) \<and> cy (position b) + cx (bsize b) \<le> cy bMax
         \<and> cz bMin \<le> cz (position b) - cx (bsize b) \<and> cz (position b) + cx (bsize b) \<le> cz bMax"
  using assms by (simp add: clearOfWalls_def Let_def wallRadius_components)

lemma dynamics_position:
  "position (spin dt b) = position b"
  "position (movePosition dt b) = addV (position b) (multiplyScalar (velocity b) dt)"
  "position (applyDrag dt rho b) = position b"
  "position (applyEffectiveGravity dt g rho b) = position b"
  by (simp_all add: spin_def movePosition_def applyDrag_def applyEffectiveGravity_def Let_def)

lemma sphereAt_clear:
  "clearOfWalls keepCorner (boundMin defaultParams) (boundMax defaultParams)
     (beforeBoundary 0 0.003 (- 9.8) 1000 [sphereAt 0 1] ! 0)"
  "clearOfWalls keepCorner (boundMin defaultParams) (boundMax defaultParams)
     (beforeBoundary 0 0.003 0 1000 [sphereAt 0 1] ! 0)"
  "clearOfWalls keepCorner (boundMin defaultParams) (boundMax defaultParams)
     (beforeBoundary 0 0.003 0 500 [sphereAt 0 1] ! 0)"
  by (simp_all add: beforeBoundary_single clearOfWalls_round dynamics_keep_shape
      dynamics_position dynamics_velocity sphereAt_facts radialForWalls_def defaultParams_def
      vec3_def addV_def multiplyScalar_def)

lemma first_statements:
  fixes b :: RigidBody and dt g rho :: real
  defines "v \<equiv> multiplyScalar
       ((velocity b)\<lparr>cy := cy (velocity b) + g * (1 - 0.8 * (rho / density b)) * dt\<rparr>)
       (1 - 0.01 * min (rho / 1000) 2 * dt * 60)"
  shows "movePosition dt (applyDrag dt rho (applyEffectiveGravity dt g rho b))
           = b\<lparr>velocity := v, position := addV (position b) (multiplyScalar v dt)\<rparr>"
  by (simp add: movePosition_def applyDrag_def applyEffectiveGravity_def Let_def v_def ac_simps)

lemma update_factor:
  "update applyEuler k dt g bMin bMax dmp rho bs
     = collideAndSettle applyEuler k dt bMin bMax
         (bs[k := movePosition dt (applyDrag dt rho (applyEffectiveGravity dt g rho (bs ! k)))])"
  by (simp add: update_def beforeBoundary_def collideAndSettle_def Let_def)

lemma fold_collidePair_none:
  "list_all (\<lambda>j. j = k \<or>
                 collisionRadius (bs ! k) + collisionRadius (bs ! j)
                   \<le> lengthV (subV (position (bs ! k)) (position (bs ! j)))) js
   \<Longrightarrow> fold (collidePair k) js bs = bs"
proof (induction js)
  case Nil
  show ?case by simp
next
  case (Cons j js)
  then have "j = k \<or> collisionRadius (bs ! k) + collisionRadius (bs ! j)
                   \<le> lengthV (subV (position (bs ! k)) (position (bs ! j)))"
    by simp
  then have "collidePair k j bs = bs"
    using collidePair_self collidePair_apart by blast
  with Cons show ?case by simp
qed

lemma checkObjectCollisions_none:
  "touchesNoBody k bs \<Longrightarrow> checkObjectCollisions k bs = bs"
  unfolding touchesNoBody_def checkObjectCollisions_def by (rule fold_collidePair_none)

lemma free_flight:
  assumes k: "k < length bs"
    and alone: "touchesNoBody k
        (bs[k := movePosition dt (applyDrag dt rho (applyEffectiveGravity dt g rho (bs ! k)))])"
    and clear: "clearOfWalls applyEuler bMin bMax (beforeBoundary k dt g rho bs ! k)"
  shows "update applyEuler k dt g bMin bMax dmp rho bs ! k
           = spin dt (movePosition dt (applyDrag dt rho (applyEffectiveGravity dt g rho (bs ! k))))"
proof -
  let ?m = "movePosition dt (applyDrag dt rho (applyEffectiveGravity dt g rho (bs ! k)))"
  have bb: "beforeBoundary k dt g rho bs = (bs[k := ?m])[k := spin dt ?m]"
    using k
    by (simp add: beforeBoundary_def Let_def checkObjectCollisions_none[OF alone])
  then have at: "beforeBoundary k dt g rho bs ! k = spin dt ?m"
    using k by simp
  have "update applyEuler k dt g bMin bMax dmp rho bs ! k
          = boundaryCollisions applyEuler bMin bMax (beforeBoundary k dt g rho bs ! k)"
    using k by (rule update_at)
  also have "\<dots> = beforeBoundary k dt g rho bs ! k"
    using clear by (rule clear_boundaryCollisions)
  finally show ?thesis
    unfolding at .
qed

lemma updateRigidBodies_reads_no_particle:
  "updateRigidBodies applyEuler
     (s\<lparr>numParticles := n, positions := ps, velocities := vs, densities := ds,
        pressures := qs, forces := fs\<rparr>)
     = updateRigidBodies applyEuler s"
  by (simp add: updateRigidBodies_def)

lemma fold_forceStep_bodies: "rigidBodies (fold forceStep ks s) = rigidBodies s"
  by (induction ks arbitrary: s) (simp_all add: forceStep_def)

lemma updateParticleSystem_bodies: "rigidBodies (updateParticleSystem s) = rigidBodies s"
proof -
  have "rigidBodies (computeDensity s) = rigidBodies s"
    using fold_densityStep_keeps[of "[0..<numParticles s]" s] by (simp add: computeDensity_def)
  moreover have "rigidBodies (computeForces t) = rigidBodies t" for t
    by (simp add: computeForces_def fold_forceStep_bodies)
  moreover have "rigidBodies (integrate dt bodies t) = rigidBodies t" for dt bodies t
    using fold_integrateParticle_frame[of t dt bodies "[0..<numParticles t]"]
    by (simp add: sameButParticles_def integrate_def)
  ultimately show ?thesis by (simp add: updateParticleSystem_def)
qed

lemma animate_bodies:
  "rigidBodies (animate applyEuler s)
     = (if paused s then rigidBodies s
        else collisionPasses (updateRigidBodies applyEuler s))"
  by (simp add: animate_def Let_def updateParticleSystem_bodies)

lemma animate_reads_no_particle:
  "rigidBodies (animate applyEuler
     (s\<lparr>numParticles := n, positions := ps, velocities := vs, densities := ds,
        pressures := qs, forces := fs\<rparr>))
     = rigidBodies (animate applyEuler s)"
  unfolding animate_bodies updateRigidBodies_reads_no_particle by simp

lemma beforeBoundary_alone:
  assumes "k < length bs"
    and "touchesNoBody k
        (bs[k := movePosition dt (applyDrag dt rho (applyEffectiveGravity dt g rho (bs ! k)))])"
  shows "beforeBoundary k dt g rho bs ! k
           = spin dt (movePosition dt (applyDrag dt rho (applyEffectiveGravity dt g rho (bs ! k))))"
  using assms(1)
  by (simp add: beforeBoundary_def Let_def checkObjectCollisions_none[OF assms(2)])

lemma twoSpheres_facts:
  "length twoSpheres = 2" "twoSpheres ! 1 = sphereAt 5 1" "twoSpheres ! 0 = sphereAt 0 1"
  "twoSpheres[1 := b] = [sphereAt 0 1, b]"
  by (simp_all add: twoSpheres_def)

lemma twoSpheres_moved:
  "movePosition 0.003 (applyDrag 0.003 1000 (applyEffectiveGravity 0.003 (- 9.8) 1000 (sphereAt 5 1)))
     = (sphereAt 5 1)\<lparr>velocity := vec3 (4991 / 5000) (- 4646621 / 225000000) 0,
          position := vec3 (25014973 / 5000000) (- 4646621 / 75000000000) 0\<rparr>"
  unfolding first_statements
  by (simp add: sphereAt_facts alongAxis.simps multiplyScalar_def addV_def vec3_def)

lemma twoSpheres_alone:
  "touchesNoBody 1
     (twoSpheres[1 := (sphereAt 5 1)\<lparr>velocity := vec3 (4991 / 5000) (- 4646621 / 225000000) 0,
          position := vec3 (25014973 / 5000000) (- 4646621 / 75000000000) 0\<rparr>])"
proof -
  have "(8 / 5 :: real) \<le> sqrt ((25014973 / 5000000) * (25014973 / 5000000)
            + (- 4646621 / 75000000000) * (- 4646621 / 75000000000) + 0 * 0)"
    by (rule real_le_rsqrt) (simp add: power2_eq_square)
  then show ?thesis
    unfolding twoSpheres_facts touchesNoBody_def
    by (simp add: collisionRadius_def sphereAt_facts lengthV_def subV_def alongAxis.simps
        vec3_def upt_rec)
qed

lemma twoSpheres_clear:
  "clearOfWalls keepCorner (boundMin defaultParams) (boundMax defaultParams)
     (beforeBoundary 1 0.003 (- 9.8) 1000 twoSpheres ! 1)"
proof -
  have k: "1 < length twoSpheres" by (simp add: twoSpheres_facts)
  have a: "touchesNoBody 1 (twoSpheres[1 := movePosition 0.003 (applyDrag 0.003 1000
             (applyEffectiveGravity 0.003 (- 9.8) 1000 (twoSpheres ! 1)))])"
    unfolding twoSpheres_facts(2) twoSpheres_moved by (rule twoSpheres_alone)
  show ?thesis
    unfolding beforeBoundary_alone[OF k a] twoSpheres_facts(2) twoSpheres_moved
    by (simp add: clearOfWalls_round dynamics_keep_shape dynamics_position sphereAt_facts
        radialForWalls_def defaultParams_def vec3_def)
qed

text \<open>
  Claim C8, amended. On every per-step update of body \<open>k\<close> of a list, of density
  \<open>\<rho>\<^sub>b > 0\<close>, in a fluid of density \<open>\<rho>\<^sub>f\<close>: the vertical velocity is first incremented by
  \<open>g (1 - 0.8 \<rho>\<^sub>f / \<rho>\<^sub>b) dt\<close>; the fluid density then enters a second time, the whole
  velocity being scaled by the drag factor \<open>1 - 0.01 min(\<rho>\<^sub>f / 1000, 2) dt 60\<close>; the
  position gains this velocity times \<open>dt\<close>. The rest of the update (collision check,
  rotation, boundary handling) is a function of the list so changed that takes neither
  the gravity nor the fluid density, so these two factors are all that the fluid
  density does to the body. When body \<open>k\<close> then overlaps no other body
  and is clear of the walls, that velocity and position are the ones it has after the
  update. No per-particle state is read: the bodies after the update of all bodies, and
  after a whole frame, are the same whatever the particle arrays hold.
\<close>

theorem buoyant_gravity_then_drag:
  fixes bs :: "RigidBody list" and k :: nat and dt g rho :: real
  defines "v \<equiv> multiplyScalar
       ((velocity (bs ! k))\<lparr>cy := cy (velocity (bs ! k))
                                  + g * (1 - 0.8 * (rho / density (bs ! k))) * dt\<rparr>)
       (1 - 0.01 * min (rho / 1000) 2 * dt * 60)"
  defines "moved \<equiv> bs[k := (bs ! k)\<lparr>velocity := v,
                                   position := addV (position (bs ! k)) (multiplyScalar v dt)\<rparr>]"
  assumes "k < length bs" and "0 < density (bs ! k)"
  shows "update applyEuler k dt g bMin bMax dmp rho bs
           = collideAndSettle applyEuler k dt bMin bMax moved
       \<and> (touchesNoBody k moved
            \<and> clearOfWalls applyEuler bMin bMax (beforeBoundary k dt g rho bs ! k) \<longrightarrow>
            velocity (update applyEuler k dt g bMin bMax dmp rho bs ! k) = v
          \<and> position (update applyEuler k dt g bMin bMax dmp rho bs ! k)
              = addV (position (bs ! k)) (multiplyScalar v dt))
       \<and> updateRigidBodies applyEuler
            (s\<lparr>numParticles := n, positions := ps, velocities := vs, densities := ds,
               pressures := qs, forces := fs\<rparr>)
           = updateRigidBodies applyEuler s
       \<and> rigidBodies (animate applyEuler
            (s\<lparr>numParticles := n, positions := ps, velocities := vs, densities := ds,
               pressures := qs, forces := fs\<rparr>))
           = rigidBodies (animate applyEuler s)"
proof -
  have m: "movePosition dt (applyDrag dt rho (applyEffectiveGravity dt g rho (bs ! k)))
             = (bs ! k)\<lparr>velocity := v,
                         position := addV (position (bs ! k)) (multiplyScalar v dt)\<rparr>"
    unfolding v_def by (rule first_statements)
  have 1: "update applyEuler k dt g bMin bMax dmp rho bs
             = collideAndSettle applyEuler k dt bMin bMax moved"
    unfolding moved_def m[symmetric] by (rule update_factor)
  have 2: "velocity (update applyEuler k dt g bMin bMax dmp rho bs ! k) = v
          \<and> position (update applyEuler k dt g bMin bMax dmp rho bs ! k)
              = addV (position (bs ! k)) (multiplyScalar v dt)"
    if "touchesNoBody k moved"
      and "clearOfWalls applyEuler bMin bMax (beforeBoundary k dt g rho bs ! k)"
  proof -
    have "update applyEuler k dt g bMin bMax dmp rho bs ! k
            = spin dt ((bs ! k)\<lparr>velocity := v,
                         position := addV (position (bs ! k)) (multiplyScalar v dt)\<rparr>)"
      using free_flight[OF assms(3) _ that(2), of dmp] that(1)
      unfolding moved_def m by simp
    then show ?thesis by (simp add: dynamics_velocity dynamics_position)
  qed
  from 1 2 updateRigidBodies_reads_no_particle animate_reads_no_particle
  show ?thesis by blast
qed

theorem buoyant_gravity_then_drag_witness:
  "1 < length twoSpheres \<and> 0 < density (twoSpheres ! 1)
   \<and> touchesNoBody 1
        (twoSpheres[1 := (sphereAt 5 1)\<lparr>velocity := vec3 (4991 / 5000) (- 4646621 / 225000000) 0,
           position := vec3 (25014973 / 5000000) (- 4646621 / 75000000000) 0\<rparr>])
   \<and> clearOfWalls keepCorner (boundMin defaultParams) (boundMax defaultParams)
        (beforeBoundary 1 0.003 (- 9.8) 1000 twoSpheres ! 1)
   \<and> velocity (update keepCorner 1 0.003 (- 9.8) (boundMin defaultParams)
                 (boundMax defaultParams) 0.6 1000 twoSpheres ! 1)
        = vec3 (4991 / 5000) (- 4646621 / 225000000) 0
   \<and> position (update keepCorner 1 0.003 (- 9.8) (boundMin defaultParams)
                 (boundMax defaultParams) 0.6 1000 twoSpheres ! 1)
        = vec3 (25014973 / 5000000) (- 4646621 / 75000000000) 0"
proof -
  have k: "1 < length twoSpheres"
    by (simp add: twoSpheres_facts)
  have d: "0 < density (twoSpheres ! 1)"
    unfolding twoSpheres_facts(2) by (simp add: sphereAt_facts)
  have v: "multiplyScalar
       ((velocity (sphereAt 5 1))\<lparr>cy := cy (velocity (sphereAt 5 1))
            + (- 9.8) * (1 - 0.8 * (1000 / density (sphereAt 5 1))) * 0.003\<rparr>)
       (1 - 0.01 * min (1000 / 1000) 2 * 0.003 * 60)
         = vec3 (4991 / 5000) (- 4646621 / 225000000) 0"
    by (simp add: sphereAt_facts alongAxis.simps multiplyScalar_def vec3_def)
  have p: "addV (position (sphereAt 5 1))
             (multiplyScalar (vec3 (4991 / 5000) (- 4646621 / 225000000) 0) 0.003)
         = vec3 (25014973 / 5000000) (- 4646621 / 75000000000) 0"
    by (simp add: sphereAt_facts alongAxis.simps multiplyScalar_def addV_def vec3_def)
  note t = buoyant_gravity_then_drag[OF k d, where dt = "0.003" and g = "- 9.8"
      and rho = 1000 and applyEuler = keepCorner and bMin = "boundMin defaultParams"
      and bMax = "boundMax defaultParams" and dmp = "0.6", unfolded twoSpheres_facts(2) v p]
  from t twoSpheres_alone twoSpheres_clear k d show ?thesis by blast
qed

theorem drag_is_a_second_fluid_channel:
  "velocity (update keepCorner 0 0.003 0 (boundMin defaultParams) (boundMax defaultParams)
              0.6 1000 [sphereAt 0 1] ! 0)
     \<noteq> velocity (update keepCorner 0 0.003 0 (boundMin defaultParams) (boundMax defaultParams)
                  0.6 500 [sphereAt 0 1] ! 0)"
proof -
  have a: "cx (velocity (update keepCorner 0 0.003 0 (boundMin defaultParams)
                  (boundMax defaultParams) 0.6 1000 [sphereAt 0 1] ! 0)) = 0.9982"
    unfolding free_body_velocity[OF sphereAt_clear(2)]
    by (simp add: sphereAt_facts multiplyScalar_def vec3_def)
  have b: "cx (velocity (update keepCorner 0 0.003 0 (boundMin defaultParams)
                  (boundMax defaultParams) 0.6 500 [sphereAt 0 1] ! 0)) = 0.9991"
    unfolding free_body_velocity[OF sphereAt_clear(3)]
    by (simp add: sphereAt_facts multiplyScalar_def vec3_def)
  show ?thesis
  proof
    assume "velocity (update keepCorner 0 0.003 0 (boundMin defaultParams)
              (boundMax defaultParams) 0.6 1000 [sphereAt 0 1] ! 0)
          = velocity (update keepCorner 0 0.003 0 (boundMin defaultParams)
              (boundMax defaultParams) 0.6 500 [sphereAt 0 1] ! 0)"
    then have "cx (velocity (update keepCorner 0 0.003 0 (boundMin defaultParams)
              (boundMax defaultParams) 0.6 1000 [sphereAt 0 1] ! 0))
          = cx (velocity (update keepCorner 0 0.003 0 (boundMin defaultParams)
              (boundMax defaultParams) 0.6 500 [sphereAt 0 1] ! 0))"
      by (rule arg_cong)
    then show False unfolding a b by simp
  qed
qed

end
